theory Spec2Isabelle
  imports
    Complex_Main
    "HOL-Library.Char_ord"
    "HOL-Library.List_Lexorder"
    "HOL-Library.Product_Lexorder"
begin

section \<open>Python values: exceptions and floats\<close>

text \<open>
  Exceptions are values of \<open>py_error\<close>; a function that can raise returns
  \<open>py_error + 'a\<close> with \<open>Inl\<close> for the exception, and \<open>and_then\<close> runs the next
  statement when the previous one did not raise.
\<close>

datatype py_error = ValueError | OverflowError | FileNotFoundError

definition and_then :: "'e + 'a \<Rightarrow> ('a \<Rightarrow> 'e + 'b) \<Rightarrow> 'e + 'b" where
  "and_then r f = (case r of Inl e \<Rightarrow> Inl e | Inr x \<Rightarrow> f x)"

text \<open>
  A Python float is an IEEE 754 binary64 number: a finite value, an infinity or NaN.
  \<open>Finite q\<close> holds the real number \<open>q\<close> that the float denotes; the sign of a zero is
  not modelled (no operation of the program tells \<open>-0.0\<close> from \<open>0.0\<close>). An \<open>int\<close> that
  Python compares with a float, or returns from \<open>min\<close> or \<open>max\<close> beside one, is
  \<open>Finite\<close> of its exact value.
\<close>

datatype pyfloat = Finite real | PosInf | NegInf | NaN

text \<open>The comparisons \<open>a < b\<close> and \<open>a <= b\<close>: false whenever an operand is NaN.\<close>

fun float_lt :: "pyfloat \<Rightarrow> pyfloat \<Rightarrow> bool" where
  "float_lt NaN b = False"
| "float_lt a NaN = False"
| "float_lt (Finite x) (Finite y) = (x < y)"
| "float_lt a NegInf = False"
| "float_lt PosInf b = False"
| "float_lt NegInf b = True"
| "float_lt a PosInf = True"

fun float_le :: "pyfloat \<Rightarrow> pyfloat \<Rightarrow> bool" where
  "float_le NaN b = False"
| "float_le a NaN = False"
| "float_le (Finite x) (Finite y) = (x \<le> y)"
| "float_le NegInf b = True"
| "float_le a PosInf = True"
| "float_le a NegInf = False"
| "float_le PosInf b = False"

text \<open>
  Python 3's built-in \<open>round\<close> with one argument, on the real value of a float: the
  nearest integer, a tie (a fractional part of exactly one half) going to the even
  neighbour.
\<close>

definition py_round :: "real \<Rightarrow> int" where
  "py_round x =
     (let f = \<lfloor>x\<rfloor>; d = x - of_int f
      in if d < 1 / 2 then f
         else if 1 / 2 < d then f + 1
         else if even f then f else f + 1)"

text \<open>
  The binade of a positive magnitude \<open>m\<close>: the exponent \<open>e\<close> with \<open>2^e \<le> m < 2^(e+1)\<close>,
  but never below -1022, the exponent of the subnormal numbers. \<open>binade_up\<close> halves a
  magnitude of at least 1 and \<open>binade_down\<close> doubles a magnitude below 1, counting the
  steps.
\<close>

function binade_up :: "real \<Rightarrow> int \<Rightarrow> int" where
  "binade_up m e = (if m < 2 then e else binade_up (m / 2) (e + 1))"
  by pat_completeness auto
termination
  by (relation "measure (\<lambda>(m, e). nat \<lfloor>m\<rfloor>)") (auto, linarith)

function binade_down :: "real \<Rightarrow> int \<Rightarrow> int" where
  "binade_down m e = (if 1 \<le> m \<or> e \<le> - 1022 then e else binade_down (2 * m) (e - 1))"
  by pat_completeness auto
termination
  by (relation "measure (\<lambda>(m, e). nat (e + 1022))") auto

definition binade :: "real \<Rightarrow> int" where
  "binade m = (if 1 \<le> m then binade_up m 0 else binade_down m 0)"

text \<open>
  Rounding a real number to the nearest double, ties to the even significand: the
  magnitude is rounded to a multiple of the unit in its binade, \<open>2^(e - 52)\<close>.
  \<open>fl\<close> is the result of an operation whose exact value is \<open>x\<close>: an infinity when the
  magnitude is at least \<open>2^1024 - 2^970\<close>, halfway between the largest double and
  \<open>2^1024\<close>.
\<close>

definition round_magnitude :: "real \<Rightarrow> real" where
  "round_magnitude m =
     (let u = 2 powi (binade m - 52) in of_int (py_round (m / u)) * u)"

definition round_to_double :: "real \<Rightarrow> real" where
  "round_to_double x =
     (if x = 0 then 0
      else if x < 0 then - round_magnitude \<bar>x\<bar>
      else round_magnitude \<bar>x\<bar>)"

definition fl :: "real \<Rightarrow> pyfloat" where
  "fl x =
     (if 2 ^ 1024 - 2 ^ 970 \<le> \<bar>x\<bar> then (if x < 0 then NegInf else PosInf)
      else Finite (round_to_double x))"

text \<open>
  The arithmetic of floats: NaN when an operand is NaN, when an infinity is multiplied
  by zero or when opposite infinities are added; otherwise the exact result rounded.
\<close>

definition float_neg :: "pyfloat \<Rightarrow> pyfloat" where
  "float_neg a =
     (case a of Finite x \<Rightarrow> Finite (- x) | PosInf \<Rightarrow> NegInf | NegInf \<Rightarrow> PosInf | NaN \<Rightarrow> NaN)"

fun float_mul :: "pyfloat \<Rightarrow> pyfloat \<Rightarrow> pyfloat" where
  "float_mul NaN b = NaN"
| "float_mul a NaN = NaN"
| "float_mul (Finite x) (Finite y) = fl (x * y)"
| "float_mul (Finite x) PosInf = (if x = 0 then NaN else if 0 < x then PosInf else NegInf)"
| "float_mul (Finite x) NegInf = (if x = 0 then NaN else if 0 < x then NegInf else PosInf)"
| "float_mul PosInf (Finite y) = (if y = 0 then NaN else if 0 < y then PosInf else NegInf)"
| "float_mul NegInf (Finite y) = (if y = 0 then NaN else if 0 < y then NegInf else PosInf)"
| "float_mul PosInf PosInf = PosInf"
| "float_mul PosInf NegInf = NegInf"
| "float_mul NegInf PosInf = NegInf"
| "float_mul NegInf NegInf = PosInf"

fun float_add :: "pyfloat \<Rightarrow> pyfloat \<Rightarrow> pyfloat" where
  "float_add NaN b = NaN"
| "float_add a NaN = NaN"
| "float_add (Finite x) (Finite y) = fl (x + y)"
| "float_add PosInf NegInf = NaN"
| "float_add NegInf PosInf = NaN"
| "float_add PosInf b = PosInf"
| "float_add NegInf b = NegInf"
| "float_add a PosInf = PosInf"
| "float_add a NegInf = NegInf"

definition float_sub :: "pyfloat \<Rightarrow> pyfloat \<Rightarrow> pyfloat" where
  "float_sub a b = float_add a (float_neg b)"

text \<open>\<open>a / 2\<close> for a float \<open>a\<close>.\<close>

definition float_half :: "pyfloat \<Rightarrow> pyfloat" where
  "float_half a = (case a of Finite x \<Rightarrow> fl (x / 2) | PosInf \<Rightarrow> PosInf | NegInf \<Rightarrow> NegInf | NaN \<Rightarrow> NaN)"

text \<open>
  The conversion of an \<open>int\<close> operand to a float, as \<open>float * int\<close> performs it: the
  nearest double, and OverflowError when the integer is too large.
\<close>

definition int_to_float :: "int \<Rightarrow> py_error + pyfloat" where
  "int_to_float n =
     (case fl (of_int n) of Finite x \<Rightarrow> Inr (Finite x) | other \<Rightarrow> Inl OverflowError)"

definition float_mul_int :: "pyfloat \<Rightarrow> int \<Rightarrow> py_error + pyfloat" where
  "float_mul_int a n = and_then (int_to_float n) (\<lambda>b. Inr (float_mul a b))"

text \<open>
  \<open>int(round(x))\<close> for a float or an int \<open>x\<close>: \<open>round\<close> raises ValueError for NaN and
  OverflowError for an infinity.
\<close>

definition py_round_float :: "pyfloat \<Rightarrow> py_error + int" where
  "py_round_float a =
     (case a of
        Finite x \<Rightarrow> Inr (py_round x)
      | NaN \<Rightarrow> Inl ValueError
      | PosInf \<Rightarrow> Inl OverflowError
      | NegInf \<Rightarrow> Inl OverflowError)"

section \<open>Coordinate conversion (export\_detections.py)\<close>

text \<open>
  \<^verbatim>\<open>def clamp(value, min_value, max_value):
      return max(min_value, min(value, max_value))\<close>
  Python's \<open>min(a, b)\<close> returns \<open>b\<close> when \<open>b < a\<close> and \<open>a\<close> otherwise; \<open>max(a, b)\<close> returns
  \<open>b\<close> when \<open>b > a\<close> and \<open>a\<close> otherwise. A comparison with NaN is false, so \<open>min\<close> keeps a
  NaN first argument and \<open>max\<close> drops a NaN second argument.
\<close>

definition py_min :: "pyfloat \<Rightarrow> pyfloat \<Rightarrow> pyfloat" where
  "py_min a b = (if float_lt b a then b else a)"

definition py_max :: "pyfloat \<Rightarrow> pyfloat \<Rightarrow> pyfloat" where
  "py_max a b = (if float_lt a b then b else a)"

definition clamp :: "pyfloat \<Rightarrow> pyfloat \<Rightarrow> pyfloat \<Rightarrow> pyfloat" where
  "clamp v min_value max_value = py_max min_value (py_min v max_value)"

text \<open>
  \<^verbatim>\<open>def convert_to_pixels(cx, cy, w, h, width, height):
      x_center = cx * width
      y_center = cy * height
      box_w = w * width
      box_h = h * height
      x1 = clamp(x_center - box_w / 2, 0, width)
      y1 = clamp(y_center - box_h / 2, 0, height)
      x2 = clamp(x_center + box_w / 2, 0, width)
      y2 = clamp(y_center + box_h / 2, 0, height)
      return int(round(x1)), int(round(y1)), int(round(x2)), int(round(y2))\<close>
  \<open>cx\<close>, \<open>cy\<close>, \<open>w\<close>, \<open>h\<close> are floats and \<open>width\<close>, \<open>height\<close> are ints. Every product,
  difference, sum and halving is rounded to a double; the bounds \<open>0\<close>, \<open>width\<close> and
  \<open>height\<close> of \<open>clamp\<close> are compared as exact integers.
\<close>

definition convert_to_pixels ::
  "pyfloat \<Rightarrow> pyfloat \<Rightarrow> pyfloat \<Rightarrow> pyfloat \<Rightarrow> int \<Rightarrow> int \<Rightarrow>
   py_error + int \<times> int \<times> int \<times> int" where
  "convert_to_pixels cx cy w h width height =
     and_then (float_mul_int cx width) (\<lambda>x_center.
     and_then (float_mul_int cy height) (\<lambda>y_center.
     and_then (float_mul_int w width) (\<lambda>box_w.
     and_then (float_mul_int h height) (\<lambda>box_h.
     let x1 = clamp (float_sub x_center (float_half box_w)) (Finite 0) (Finite (of_int width));
         y1 = clamp (float_sub y_center (float_half box_h)) (Finite 0) (Finite (of_int height));
         x2 = clamp (float_add x_center (float_half box_w)) (Finite 0) (Finite (of_int width));
         y2 = clamp (float_add y_center (float_half box_h)) (Finite 0) (Finite (of_int height))
     in and_then (py_round_float x1) (\<lambda>px1.
        and_then (py_round_float y1) (\<lambda>py1.
        and_then (py_round_float x2) (\<lambda>px2.
        and_then (py_round_float y2) (\<lambda>py2.
        Inr (px1, py1, px2, py2)))))))))"

text \<open>
  The rounding rule as the specification words it, round half away from zero, and the
  conversion it would give. Used only to compare with the source's conversion.
\<close>

definition round_half_away :: "real \<Rightarrow> int" where
  "round_half_away x = (if 0 \<le> x then \<lfloor>x + 1 / 2\<rfloor> else \<lceil>x - 1 / 2\<rceil>)"

definition round_half_away_float :: "pyfloat \<Rightarrow> py_error + int" where
  "round_half_away_float a =
     (case a of
        Finite x \<Rightarrow> Inr (round_half_away x)
      | NaN \<Rightarrow> Inl ValueError
      | PosInf \<Rightarrow> Inl OverflowError
      | NegInf \<Rightarrow> Inl OverflowError)"

definition convert_to_pixels_half_away ::
  "pyfloat \<Rightarrow> pyfloat \<Rightarrow> pyfloat \<Rightarrow> pyfloat \<Rightarrow> int \<Rightarrow> int \<Rightarrow>
   py_error + int \<times> int \<times> int \<times> int" where
  "convert_to_pixels_half_away cx cy w h width height =
     and_then (float_mul_int cx width) (\<lambda>x_center.
     and_then (float_mul_int cy height) (\<lambda>y_center.
     and_then (float_mul_int w width) (\<lambda>box_w.
     and_then (float_mul_int h height) (\<lambda>box_h.
     let x1 = clamp (float_sub x_center (float_half box_w)) (Finite 0) (Finite (of_int width));
         y1 = clamp (float_sub y_center (float_half box_h)) (Finite 0) (Finite (of_int height));
         x2 = clamp (float_add x_center (float_half box_w)) (Finite 0) (Finite (of_int width));
         y2 = clamp (float_add y_center (float_half box_h)) (Finite 0) (Finite (of_int height))
     in and_then (round_half_away_float x1) (\<lambda>px1.
        and_then (round_half_away_float y1) (\<lambda>py1.
        and_then (round_half_away_float x2) (\<lambda>px2.
        and_then (round_half_away_float y2) (\<lambda>py2.
        Inr (px1, py1, px2, py2)))))))))"

text \<open>
  An integer \<open>r\<close> is the nearest integer to \<open>v\<close> with ties resolved to even.
\<close>

definition nearest_ties_even :: "real \<Rightarrow> int \<Rightarrow> bool" where
  "nearest_ties_even v r \<longleftrightarrow>
     \<bar>of_int r - v\<bar> \<le> 1 / 2 \<and> (\<bar>of_int r - v\<bar> = 1 / 2 \<longrightarrow> even r)"

text \<open>
  With finite bounds \<open>clamp\<close> always returns a finite number: the value itself when it
  lies between the bounds, a bound otherwise, and the lower bound for NaN.
\<close>

definition clamp_value :: "pyfloat \<Rightarrow> real \<Rightarrow> real \<Rightarrow> real" where
  "clamp_value v lo hi =
     (case v of
        Finite q \<Rightarrow> max lo (min q hi)
      | PosInf \<Rightarrow> max lo hi
      | NegInf \<Rightarrow> lo
      | NaN \<Rightarrow> lo)"

section \<open>Label-line parsing (export\_detections.py)\<close>

text \<open>
  A Python \<open>str\<close> is modelled as a list of characters with code points below 256.
\<close>

text \<open>
  The characters \<open>str.isspace\<close> accepts below code point 256: tab, line feed, vertical
  tab, form feed, carriage return, the separators 28 to 31, space, NEL and the no-break
  space. \<open>str.strip()\<close> and \<open>str.split()\<close> use this set.
\<close>

definition is_space :: "char \<Rightarrow> bool" where
  "is_space c \<longleftrightarrow> of_char c \<in> {9, 10, 11, 12, 13, 28, 29, 30, 31, 32, 133, 160 :: nat}"

definition py_strip :: "string \<Rightarrow> string" where
  "py_strip s = rev (dropWhile is_space (rev (dropWhile is_space s)))"

text \<open>
  \<open>str.split()\<close> without arguments: the maximal runs of non-space characters, in
  order. \<open>split_from tok s\<close> scans \<open>s\<close> with the token read so far in \<open>tok\<close>.
\<close>

fun split_from :: "string \<Rightarrow> string \<Rightarrow> string list" where
  "split_from tok [] = (if tok = [] then [] else [tok])"
| "split_from tok (c # cs) =
     (if is_space c then (if tok = [] then split_from [] cs else tok # split_from [] cs)
      else split_from (tok @ [c]) cs)"

definition py_split :: "string \<Rightarrow> string list" where
  "py_split s = split_from [] s"

definition is_digit :: "char \<Rightarrow> bool" where
  "is_digit c \<longleftrightarrow> 48 \<le> (of_char c :: nat) \<and> (of_char c :: nat) \<le> 57"

definition digit_val :: "char \<Rightarrow> nat" where
  "digit_val c = of_char c - 48"

definition ascii_lower :: "char \<Rightarrow> char" where
  "ascii_lower c =
     (if 65 \<le> (of_char c :: nat) \<and> (of_char c :: nat) \<le> 90
      then char_of (of_char c + 32 :: nat) else c)"

text \<open>
  The grammar of \<open>float(str)\<close>:
  \<^verbatim>\<open>digitpart  ::= digit (["_"] digit)*
  number     ::= [digitpart] "." digitpart | digitpart ["."]
  exponent   ::= ("e" | "E") ["+" | "-"] digitpart
  floatvalue ::= ["+" | "-"] (number [exponent] | "inf" | "infinity" | "nan")\<close>
  with the three words matched without regard to case. \<open>digits_tail\<close> reads
  \<open>(["_"] digit)*\<close> and returns the digits and the unread rest.
\<close>

fun digits_tail :: "string \<Rightarrow> nat list \<times> string" where
  "digits_tail [] = ([], [])"
| "digits_tail (c # cs) =
     (if is_digit c then (case digits_tail cs of (ds, r) \<Rightarrow> (digit_val c # ds, r))
      else if c = CHR ''_'' then
        (case cs of
           [] \<Rightarrow> ([], c # cs)
         | d # cs' \<Rightarrow>
             if is_digit d then (case digits_tail cs' of (ds, r) \<Rightarrow> (digit_val d # ds, r))
             else ([], c # cs))
      else ([], c # cs))"

definition digitpart :: "string \<Rightarrow> (nat list \<times> string) option" where
  "digitpart s =
     (case s of
        [] \<Rightarrow> None
      | c # cs \<Rightarrow>
          if is_digit c then (case digits_tail cs of (ds, r) \<Rightarrow> Some (digit_val c # ds, r))
          else None)"

definition parse_number :: "string \<Rightarrow> (nat list \<times> nat list \<times> string) option" where
  "parse_number s =
     (case digitpart s of
        Some (ds, r) \<Rightarrow>
          (case r of
             [] \<Rightarrow> Some (ds, [], [])
           | c # r' \<Rightarrow>
               if c = CHR ''.'' then
                 (case digitpart r' of
                    Some (fs, r'') \<Rightarrow> Some (ds, fs, r'')
                  | None \<Rightarrow> Some (ds, [], r'))
               else Some (ds, [], r))
      | None \<Rightarrow>
          (case s of
             [] \<Rightarrow> None
           | c # r \<Rightarrow>
               if c = CHR ''.'' then
                 (case digitpart r of Some (fs, r') \<Rightarrow> Some ([], fs, r') | None \<Rightarrow> None)
               else None))"

definition strip_sign :: "string \<Rightarrow> bool \<times> string" where
  "strip_sign s =
     (case s of
        [] \<Rightarrow> (False, [])
      | c # cs \<Rightarrow>
          if c = CHR ''-'' then (True, cs) else if c = CHR ''+'' then (False, cs) else (False, s))"

definition nat_of_digits :: "nat list \<Rightarrow> nat" where
  "nat_of_digits ds = fold (\<lambda>d n. 10 * n + d) ds 0"

text \<open>The exponent that ends a literal; an empty rest is the exponent 0.\<close>

definition parse_exponent :: "string \<Rightarrow> int option" where
  "parse_exponent r =
     (case r of
        [] \<Rightarrow> Some 0
      | c # r' \<Rightarrow>
          if c = CHR ''e'' \<or> c = CHR ''E'' then
            (case strip_sign r' of
               (neg, r'') \<Rightarrow>
                 (case digitpart r'' of
                    Some (es, rest) \<Rightarrow>
                      if rest = [] then
                        Some (if neg then - int (nat_of_digits es) else int (nat_of_digits es))
                      else None
                  | None \<Rightarrow> None))
          else None)"

definition decimal_value :: "nat list \<Rightarrow> nat list \<Rightarrow> int \<Rightarrow> real" where
  "decimal_value ds fs e =
     (let m = real (nat_of_digits (ds @ fs)); k = e - int (length fs)
      in if 0 \<le> k then m * 10 ^ nat k else m / 10 ^ nat (- k))"

text \<open>
  The float a literal denotes: its exact decimal value, correctly rounded to the nearest
  double; a literal too large for a double gives an infinity.
\<close>

definition mk_float :: "bool \<Rightarrow> real \<Rightarrow> pyfloat" where
  "mk_float neg q = fl (if neg then - q else q)"

text \<open>\<open>float(tok)\<close> for a token without white space; \<open>None\<close> is its ValueError.\<close>

definition py_float :: "string \<Rightarrow> pyfloat option" where
  "py_float s =
     (case strip_sign s of
        (neg, r) \<Rightarrow>
          if map ascii_lower r = ''inf'' \<or> map ascii_lower r = ''infinity''
          then Some (if neg then NegInf else PosInf)
          else if map ascii_lower r = ''nan'' then Some NaN
          else
            (case parse_number r of
               None \<Rightarrow> None
             | Some (ds, fs, r') \<Rightarrow>
                 (case parse_exponent r' of
                    None \<Rightarrow> None
                  | Some e \<Rightarrow> Some (mk_float neg (decimal_value ds fs e)))))"

text \<open>
  \<open>int(x)\<close> for a float: truncation toward zero; ValueError for NaN and
  OverflowError for an infinity.
\<close>

definition trunc_toward_zero :: "real \<Rightarrow> int" where
  "trunc_toward_zero q = (if 0 \<le> q then \<lfloor>q\<rfloor> else \<lceil>q\<rceil>)"

definition py_int :: "pyfloat \<Rightarrow> py_error + int" where
  "py_int x =
     (case x of
        Finite q \<Rightarrow> Inr (trunc_toward_zero q)
      | NaN \<Rightarrow> Inl ValueError
      | PosInf \<Rightarrow> Inl OverflowError
      | NegInf \<Rightarrow> Inl OverflowError)"

definition float_of_token :: "string \<Rightarrow> py_error + pyfloat" where
  "float_of_token tok = (case py_float tok of None \<Rightarrow> Inl ValueError | Some x \<Rightarrow> Inr x)"

text \<open>
  \<^verbatim>\<open>def parse_label_line(line):
      parts = line.strip().split()
      if len(parts) < 5:
          raise ValueError(...)
      class_id = int(float(parts[0]))
      cx = float(parts[1])
      cy = float(parts[2])
      w = float(parts[3])
      h = float(parts[4])
      confidence = float(parts[5]) if len(parts) > 5 else None
      return class_id, cx, cy, w, h, confidence\<close>
  \<open>parse_parts\<close> is the body after the split; the statements run in the source's order,
  so the first one that raises decides the exception.
\<close>

type_synonym label = "int \<times> pyfloat \<times> pyfloat \<times> pyfloat \<times> pyfloat \<times> pyfloat option"

definition parse_parts :: "string list \<Rightarrow> py_error + label" where
  "parse_parts parts =
     (if length parts < 5 then Inl ValueError
      else
        and_then (and_then (float_of_token (parts ! 0)) py_int) (\<lambda>class_id.
        and_then (float_of_token (parts ! 1)) (\<lambda>cx.
        and_then (float_of_token (parts ! 2)) (\<lambda>cy.
        and_then (float_of_token (parts ! 3)) (\<lambda>w.
        and_then (float_of_token (parts ! 4)) (\<lambda>h.
        if 5 < length parts
        then and_then (float_of_token (parts ! 5)) (\<lambda>confidence.
               Inr (class_id, cx, cy, w, h, Some confidence))
        else Inr (class_id, cx, cy, w, h, None)))))))"

definition parse_label_line :: "string \<Rightarrow> py_error + label" where
  "parse_label_line line = parse_parts (py_split (py_strip line))"

section \<open>Image resolution (export\_detections.py)\<close>

text \<open>
  A path is the list of its components. The file system is the list of its regular
  files, in the order in which a recursive walk lists them; \<open>is_file\<close> is membership.
\<close>

type_synonym path = "string list"

type_synonym file_system = "path list"

definition IMAGE_EXTENSIONS :: "string list" where
  "IMAGE_EXTENSIONS = [''.jpg'', ''.jpeg'', ''.png'', ''.bmp'', ''.tif'', ''.tiff'', ''.webp'']"

definition path_name :: "path \<Rightarrow> string" where
  "path_name p = (if p = [] then [] else last p)"

definition path_parent :: "path \<Rightarrow> path" where
  "path_parent p = butlast p"

text \<open>
  \<open>Path.stem\<close>: the name up to its last dot, unless that dot is the first or the last
  character of the name or there is none.
\<close>

definition rfind_dot :: "string \<Rightarrow> nat option" where
  "rfind_dot s =
     (if CHR ''.'' \<in> set s
      then Some (length s - 1 - length (takeWhile (\<lambda>c. c \<noteq> CHR ''.'') (rev s)))
      else None)"

definition path_stem :: "path \<Rightarrow> string" where
  "path_stem p =
     (let name = path_name p
      in case rfind_dot name of
           None \<Rightarrow> name
         | Some i \<Rightarrow> if 0 < i \<and> i < length name - 1 then take i name else name)"

text \<open>
  \<open>directory.rglob(pattern)\<close> for a pattern without wildcard characters: the files
  below \<open>directory\<close>, at any depth, whose name is the pattern, in walk order
  (a directory of that name, which \<open>rglob\<close> would list too, is not modelled).
\<close>

definition rglob :: "file_system \<Rightarrow> path \<Rightarrow> string \<Rightarrow> path list" where
  "rglob fs directory pattern =
     filter (\<lambda>p. length directory < length p \<and> take (length directory) p = directory \<and>
                 last p = pattern) fs"

text \<open>
  The source iterates over the set literal \<open>{runs_dir, base_dir}\<close>. A Python set holds
  equal elements once and is iterated in the order of its hash table, which follows the
  hashes of the paths and not the order in which the literal lists them. The flag
  \<open>base_first\<close> says that \<open>base_dir\<close> comes before \<open>runs_dir\<close> in that order.
\<close>

definition set_iteration :: "bool \<Rightarrow> path \<Rightarrow> path \<Rightarrow> path list" where
  "set_iteration base_first runs_dir base_dir =
     (if runs_dir = base_dir then [runs_dir]
      else if base_first then [base_dir, runs_dir]
      else [runs_dir, base_dir])"

text \<open>
  \<^verbatim>\<open>def find_image_for_label(runs_dir, label_path):
      stem = label_path.stem
      base_dir = label_path.parent.parent if label_path.parent.name == "labels" else runs_dir
      for directory in {runs_dir, base_dir}:
          for ext in IMAGE_EXTENSIONS:
              candidate = directory / f"{stem}{ext}"
              if candidate.is_file():
                  return candidate
      for ext in IMAGE_EXTENSIONS:
          matches = list(runs_dir.rglob(f"{stem}{ext}"))
          if matches:
              return matches[0]
      raise FileNotFoundError(...)\<close>
\<close>

definition find_image_for_label ::
  "bool \<Rightarrow> file_system \<Rightarrow> path \<Rightarrow> path \<Rightarrow> py_error + path" where
  "find_image_for_label base_first fs runs_dir label_path =
     (let stem = path_stem label_path;
          base_dir = (if path_name (path_parent label_path) = ''labels''
                      then path_parent (path_parent label_path) else runs_dir);
          candidates =
            concat (map (\<lambda>directory. map (\<lambda>ext. directory @ [stem @ ext]) IMAGE_EXTENSIONS)
                      (set_iteration base_first runs_dir base_dir))
      in case find (\<lambda>candidate. candidate \<in> set fs) candidates of
           Some candidate \<Rightarrow> Inr candidate
         | None \<Rightarrow>
             (case find (\<lambda>ext. rglob fs runs_dir (stem @ ext) \<noteq> []) IMAGE_EXTENSIONS of
                Some ext \<Rightarrow> Inr (hd (rglob fs runs_dir (stem @ ext)))
              | None \<Rightarrow> Inl FileNotFoundError))"

text \<open>
  A run directory with an image of the same name directly under the root and beside a
  nested \<open>labels\<close> folder.
\<close>

definition nested_run :: file_system where
  "nested_run =
     [[''runs'', ''a.jpg''],
      [''runs'', ''exp'', ''a.jpg''],
      [''runs'', ''exp'', ''labels'', ''a.txt'']]"

section \<open>Refinement (refine\_detections.py)\<close>

text \<open>
  A detection and an image record of the exported JSON. A key that is absent or null is
  \<open>None\<close>; \<open>isinstance(class_id, int)\<close> and \<open>isinstance(class_name, str)\<close> hold exactly
  for \<open>Some\<close>. A confidence is a float as the exporter writes it, NaN and the infinities
  included (the parser accepts such tokens and JSON carries them). The detection list of
  a record without the key is \<open>[]\<close>, as \<open>record.get("detections", [])\<close> gives.
\<close>

record detection =
  class_id :: "int option"
  class_name :: "string option"
  confidence :: "pyfloat option"
  bbox :: "int \<times> int \<times> int \<times> int"
  bbox_norm :: "pyfloat \<times> pyfloat \<times> pyfloat \<times> pyfloat"

record meta_block =
  meta_num_detections :: nat
  meta_num_original :: nat
  min_conf_applied :: pyfloat
  class_filter :: "string list option"

record image_record =
  image :: string
  image_path :: string
  image_width :: int
  image_height :: int
  detections :: "detection list"
  meta :: "meta_block option"

text \<open>
  \<open>str.lower()\<close> on code points below 256: the letters A to Z and the upper-case
  letters 192 to 222 (without the multiplication sign 215) move up by 32.
\<close>

definition py_lower_char :: "char \<Rightarrow> char" where
  "py_lower_char c =
     (let n = (of_char c :: nat)
      in if (65 \<le> n \<and> n \<le> 90) \<or> (192 \<le> n \<and> n \<le> 222 \<and> n \<noteq> 215)
         then char_of (n + 32) else c)"

definition py_lower :: "string \<Rightarrow> string" where
  "py_lower s = map py_lower_char s"

text \<open>
  \<^verbatim>\<open>def detection_passes(detection, min_conf, allowed_ids, allowed_names):
      conf = detection.get("confidence")
      conf_value = float(conf) if conf is not None else 0.0
      if conf_value < min_conf:
          return False
      if not allowed_ids and not allowed_names:
          return True
      class_id = detection.get("class_id")
      class_name = detection.get("class_name")
      if allowed_ids and isinstance(class_id, int) and class_id in allowed_ids:
          return True
      if allowed_names and isinstance(class_name, str) and class_name.lower() in allowed_names:
          return True
      return False\<close>
  \<open>min_conf\<close> is the float that \<open>--min-conf\<close> was parsed to.
\<close>

definition detection_passes :: "detection \<Rightarrow> pyfloat \<Rightarrow> int set \<Rightarrow> string set \<Rightarrow> bool" where
  "detection_passes det min_conf allowed_ids allowed_names =
     (let conf_value = (case confidence det of None \<Rightarrow> Finite 0 | Some conf \<Rightarrow> conf) in
      if float_lt conf_value min_conf then False
      else if allowed_ids = {} \<and> allowed_names = {} then True
      else if allowed_ids \<noteq> {} \<and>
              (case class_id det of None \<Rightarrow> False | Some i \<Rightarrow> i \<in> allowed_ids) then True
      else if allowed_names \<noteq> {} \<and>
              (case class_name det of None \<Rightarrow> False | Some n \<Rightarrow> py_lower n \<in> allowed_names)
           then True
      else False)"

text \<open>
  \<open>float(d.get("confidence") or 0.0)\<close>, the sort key of the refinement and the
  confidence column of the summary: 0.0 for an absent confidence (and for 0.0 itself,
  which is falsy), the confidence otherwise.
\<close>

definition confidence_or_zero :: "detection \<Rightarrow> pyfloat" where
  "confidence_or_zero det = (case confidence det of None \<Rightarrow> Finite 0 | Some c \<Rightarrow> c)"

text \<open>
  Sorting in descending order of a float key with equal keys kept in their original
  order, as \<open>list.sort(key=..., reverse=True)\<close> does. \<open>descending_rank\<close> turns the order
  of the floats around and puts NaN last. (With a NaN among the keys Python's sort still
  returns a rearrangement of the list, in an order that is not modelled.)
\<close>

definition descending_rank :: "pyfloat \<Rightarrow> int \<times> real" where
  "descending_rank a =
     (case a of PosInf \<Rightarrow> (- 1, 0) | Finite x \<Rightarrow> (0, - x) | NegInf \<Rightarrow> (1, 0) | NaN \<Rightarrow> (2, 0))"

definition sort_descending :: "('a \<Rightarrow> pyfloat) \<Rightarrow> 'a list \<Rightarrow> 'a list" where
  "sort_descending key xs = sort_key (\<lambda>x. descending_rank (key x)) xs"

text \<open>\<open>str(i)\<close> for an integer: its decimal digits, with a minus sign when negative.\<close>

fun str_nat :: "nat \<Rightarrow> string" where
  "str_nat n =
     (if n < 10 then [char_of (48 + n)] else str_nat (n div 10) @ [char_of (48 + n mod 10)])"

definition py_str_int :: "int \<Rightarrow> string" where
  "py_str_int i = (if i < 0 then CHR ''-'' # str_nat (nat (- i)) else str_nat (nat i))"

text \<open>
  The body of the loop of \<open>refine_records\<close> for one record: \<open>None\<close> when the record is
  skipped by \<open>continue\<close>.
\<close>

definition refine_record ::
  "image_record \<Rightarrow> pyfloat \<Rightarrow> int set \<Rightarrow> string set \<Rightarrow> bool \<Rightarrow> bool \<Rightarrow> image_record option" where
  "refine_record record min_conf allowed_ids allowed_names drop_empty sort_desc =
     (let dets = detections record;
          filtered = filter (\<lambda>det. detection_passes det min_conf allowed_ids allowed_names) dets;
          filtered = (if sort_desc then sort_descending confidence_or_zero filtered
                      else filtered)
      in if drop_empty \<and> filtered = [] then None
         else Some \<lparr>
           image = image record,
           image_path = image_path record,
           image_width = image_width record,
           image_height = image_height record,
           detections = filtered,
           meta = Some \<lparr>
             meta_num_detections = length filtered,
             meta_num_original = length dets,
             min_conf_applied = min_conf,
             class_filter =
               (if allowed_ids \<noteq> {} \<or> allowed_names \<noteq> {}
                then Some (sort (map py_str_int (sorted_list_of_set allowed_ids) @
                                 sorted_list_of_set allowed_names))
                else None) \<rparr> \<rparr>)"

fun refine_records ::
  "image_record list \<Rightarrow> pyfloat \<Rightarrow> int set \<Rightarrow> string set \<Rightarrow> bool \<Rightarrow> bool \<Rightarrow>
   image_record list" where
  "refine_records [] min_conf allowed_ids allowed_names drop_empty sort_desc = []"
| "refine_records (record # records) min_conf allowed_ids allowed_names drop_empty sort_desc =
     (case refine_record record min_conf allowed_ids allowed_names drop_empty sort_desc of
        None \<Rightarrow> refine_records records min_conf allowed_ids allowed_names drop_empty sort_desc
      | Some new_record \<Rightarrow>
          new_record #
          refine_records records min_conf allowed_ids allowed_names drop_empty sort_desc)"

text \<open>
  Inputs for the refinement. \<open>mixed_records\<close>: one image with detections at 0.75, at
  0.25 and without a confidence, and one image whose only detection is at 0.125.
  \<open>nan_records\<close>: one image whose only detection has the confidence NaN.
\<close>

definition mixed_records :: "image_record list" where
  "mixed_records =
     [\<lparr> image = ''a.jpg'', image_path = ''a.jpg'', image_width = 100, image_height = 200,
        detections =
          [\<lparr> class_id = Some 2, class_name = Some ''dog'', confidence = Some (Finite (3 / 4)),
             bbox = (0, 0, 10, 10),
             bbox_norm = (Finite (1 / 16), Finite (1 / 32), Finite (1 / 8), Finite (1 / 16)) \<rparr>,
           \<lparr> class_id = Some 2, class_name = Some ''dog'', confidence = Some (Finite (1 / 4)),
             bbox = (20, 20, 30, 30),
             bbox_norm = (Finite (1 / 4), Finite (1 / 8), Finite (1 / 8), Finite (1 / 16)) \<rparr>,
           \<lparr> class_id = Some 5, class_name = Some ''cat'', confidence = None,
             bbox = (40, 40, 50, 50),
             bbox_norm = (Finite (1 / 2), Finite (1 / 4), Finite (1 / 8), Finite (1 / 16)) \<rparr>],
        meta = None \<rparr>,
      \<lparr> image = ''b.jpg'', image_path = ''b.jpg'', image_width = 100, image_height = 200,
        detections =
          [\<lparr> class_id = Some 5, class_name = Some ''cat'', confidence = Some (Finite (1 / 8)),
             bbox = (0, 0, 10, 10),
             bbox_norm = (Finite (1 / 16), Finite (1 / 32), Finite (1 / 8), Finite (1 / 16)) \<rparr>],
        meta = None \<rparr>]"

definition nan_records :: "image_record list" where
  "nan_records =
     [\<lparr> image = ''a.jpg'', image_path = ''a.jpg'', image_width = 100, image_height = 200,
        detections =
          [\<lparr> class_id = Some 2, class_name = Some ''dog'', confidence = Some NaN,
             bbox = (0, 0, 10, 10),
             bbox_norm = (Finite (1 / 16), Finite (1 / 32), Finite (1 / 8), Finite (1 / 16)) \<rparr>],
        meta = None \<rparr>]"

section \<open>Summary (detection\_summary.py)\<close>

text \<open>
  A row of the data frame that \<open>build_dataframe\<close> makes, one per detection, in the order
  the detections are met while walking the records.
\<close>

record df_row =
  row_image :: string
  row_class_id :: "int option"
  row_class_name :: "string option"
  row_confidence :: pyfloat

definition build_dataframe :: "image_record list \<Rightarrow> df_row list" where
  "build_dataframe records =
     concat (map (\<lambda>record. map (\<lambda>det.
        \<lparr> row_image = image record,
          row_class_id = class_id det,
          row_class_name = class_name det,
          row_confidence = confidence_or_zero det \<rparr>) (detections record)) records)"

text \<open>
  What \<open>summarise\<close> leaves to pandas is a parameter of the model. A cell is a value read
  from a column of the frame: a string, an integer, a float (NaN included) or \<open>None\<close>.
  The library decides

    \<^item> which cell a row holds in the columns \<open>class_name\<close> and \<open>class_id\<close>, given the whole
      frame (a column of integers with a missing entry is stored as floats; a missing
      name is \<open>None\<close> or NaN, by the version of the library);
    \<^item> how a cell is formatted in an f-string;
    \<^item> the mean and the maximum of the confidences of a group.
\<close>

datatype cell = Str_cell string | Int_cell int | Float_cell pyfloat | None_cell

record pandas =
  name_cell :: "df_row list \<Rightarrow> df_row \<Rightarrow> cell"
  id_cell :: "df_row list \<Rightarrow> df_row \<Rightarrow> cell"
  format_cell :: "cell \<Rightarrow> string"
  group_mean :: "pyfloat list \<Rightarrow> pyfloat"
  group_max :: "pyfloat list \<Rightarrow> pyfloat"

text \<open>
  Truth value of a cell in a conditional expression: an empty string, zero and \<open>None\<close>
  are falsy; NaN is truthy.
\<close>

fun truthy :: "cell \<Rightarrow> bool" where
  "truthy (Str_cell s) = (s \<noteq> [])"
| "truthy (Int_cell i) = (i \<noteq> 0)"
| "truthy (Float_cell a) = (a \<noteq> Finite 0)"
| "truthy None_cell = False"

text \<open>
  \<^verbatim>\<open>lambda row: row["class_name"] if row["class_name"] else f"class_{row['class_id']}"\<close>
\<close>

definition display_of :: "pandas \<Rightarrow> df_row list \<Rightarrow> df_row \<Rightarrow> cell" where
  "display_of lib df row =
     (let name = name_cell lib df row
      in if truthy name then name
         else Str_cell (''class_'' @ format_cell lib (id_cell lib df row)))"

record summary_row =
  class_display :: cell
  summary_class_id :: cell
  num_detections :: nat
  mean_confidence :: pyfloat
  max_confidence :: pyfloat

type_synonym group_key = "cell \<times> cell"

definition row_key :: "pandas \<Rightarrow> df_row list \<Rightarrow> df_row \<Rightarrow> group_key" where
  "row_key lib df row = (display_of lib df row, id_cell lib df row)"

definition summary_key :: "summary_row \<Rightarrow> group_key" where
  "summary_key s = (class_display s, summary_class_id s)"

text \<open>
  \<open>groupby(["class_display", "class_id"], dropna=False)\<close> with pandas' default
  \<open>sort=True\<close> emits the groups in ascending order of the key: by \<open>class_display\<close>, then
  by \<open>class_id\<close>; strings compare by code point, numbers by value, and a missing value
  (\<open>None\<close> or NaN) comes after every other. \<open>cell_rank\<close> maps a cell to a value whose
  order is that order (a column holds strings or numbers, not both).
\<close>

definition cell_rank :: "cell \<Rightarrow> nat \<times> string \<times> int \<times> real" where
  "cell_rank c =
     (case c of
        Str_cell s \<Rightarrow> (0, s, 0, 0)
      | Int_cell i \<Rightarrow> (0, [], 0, of_int i)
      | Float_cell a \<Rightarrow>
          (case a of
             Finite x \<Rightarrow> (0, [], 0, x)
           | NegInf \<Rightarrow> (0, [], - 1, 0)
           | PosInf \<Rightarrow> (0, [], 1, 0)
           | NaN \<Rightarrow> (1, [], 0, 0))
      | None_cell \<Rightarrow> (1, [], 0, 0))"

definition key_rank ::
  "group_key \<Rightarrow> (nat \<times> string \<times> int \<times> real) \<times> (nat \<times> string \<times> int \<times> real)" where
  "key_rank k = (cell_rank (fst k), cell_rank (snd k))"

definition group_keys :: "pandas \<Rightarrow> df_row list \<Rightarrow> group_key list" where
  "group_keys lib df = sort_key key_rank (remdups (map (row_key lib df) df))"

text \<open>
  \<open>.agg(num_detections=("confidence", "size"), mean_confidence=("confidence", "mean"),
  max_confidence=("confidence", "max"))\<close> for the group of one key.
\<close>

definition aggregate :: "pandas \<Rightarrow> df_row list \<Rightarrow> group_key \<Rightarrow> summary_row" where
  "aggregate lib df k =
     (let cs = map row_confidence (filter (\<lambda>row. row_key lib df row = k) df)
      in \<lparr> class_display = fst k,
           summary_class_id = snd k,
           num_detections = length cs,
           mean_confidence = group_mean lib cs,
           max_confidence = group_max lib cs \<rparr>)"

definition groupby_agg :: "pandas \<Rightarrow> df_row list \<Rightarrow> summary_row list" where
  "groupby_agg lib df = map (aggregate lib df) (group_keys lib df)"

text \<open>The three columns \<open>--sort-by\<close> accepts; a count is compared by its value.\<close>

datatype sort_column = By_num_detections | By_mean_confidence | By_max_confidence

definition column :: "sort_column \<Rightarrow> summary_row \<Rightarrow> pyfloat" where
  "column sort_by s =
     (case sort_by of
        By_num_detections \<Rightarrow> Finite (real (num_detections s))
      | By_mean_confidence \<Rightarrow> mean_confidence s
      | By_max_confidence \<Rightarrow> max_confidence s)"

text \<open>
  \<open>sort_values(by=sort_by, ascending=False)\<close>: rows in descending order of the column,
  rows with NaN there last. pandas' default sort kind promises no order among rows with
  equal values; the model keeps such rows in the order they had, which is one of the
  orders the library may give. No property below depends on that choice.
\<close>

definition sort_values_desc ::
  "(summary_row \<Rightarrow> pyfloat) \<Rightarrow> summary_row list \<Rightarrow> summary_row list" where
  "sort_values_desc col rows = sort_descending col rows"

text \<open>
  \<^verbatim>\<open>def summarise(df, sort_by):
      if df.empty:
          return pd.DataFrame(columns=[...])
      df = df.assign(class_display=df.apply(lambda row: ..., axis=1))
      summary = (df.groupby(["class_display", "class_id"], dropna=False)
                   .agg(...).reset_index())
      summary = summary.sort_values(by=sort_by, ascending=False).reset_index(drop=True)
      return summary\<close>
\<close>

definition summarise :: "pandas \<Rightarrow> df_row list \<Rightarrow> sort_column \<Rightarrow> summary_row list" where
  "summarise lib df sort_by =
     (if df = [] then [] else sort_values_desc (column sort_by) (groupby_agg lib df))"

text \<open>
  One behaviour of the library, used for the concrete examples. A name column keeps
  strings and \<open>None\<close> as they are. A class id column whose ids are all present holds
  integers; one whose ids are all missing holds \<open>None\<close>; a mixed one is stored as floats
  with NaN for a missing id. An integer is formatted in decimal, an integer-valued float
  with \<open>.0\<close> appended (as \<open>1.0\<close>; the floats of a class id column are integer-valued, and
  those below \<open>1e16\<close> are so formatted), NaN as \<open>nan\<close>. Mean and maximum skip NaN and are
  NaN for a group with nothing else; the mean divides the sum, accumulated from left to
  right, by the count.
\<close>

definition float_div_nat :: "pyfloat \<Rightarrow> nat \<Rightarrow> pyfloat" where
  "float_div_nat a n = (case a of Finite x \<Rightarrow> fl (x / real n) | _ \<Rightarrow> a)"

definition skipna_mean :: "pyfloat list \<Rightarrow> pyfloat" where
  "skipna_mean cs =
     (let vs = filter (\<lambda>c. c \<noteq> NaN) cs
      in if vs = [] then NaN else float_div_nat (foldl float_add (Finite 0) vs) (length vs))"

definition skipna_max :: "pyfloat list \<Rightarrow> pyfloat" where
  "skipna_max cs =
     (case filter (\<lambda>c. c \<noteq> NaN) cs of
        [] \<Rightarrow> NaN
      | v # vs \<Rightarrow> foldl (\<lambda>m c. if float_lt m c then c else m) v vs)"

definition format_value :: "cell \<Rightarrow> string" where
  "format_value c =
     (case c of
        Str_cell s \<Rightarrow> s
      | Int_cell i \<Rightarrow> py_str_int i
      | Float_cell a \<Rightarrow>
          (case a of
             Finite x \<Rightarrow> py_str_int \<lfloor>x\<rfloor> @ ''.0''
           | PosInf \<Rightarrow> ''inf''
           | NegInf \<Rightarrow> ''-inf''
           | NaN \<Rightarrow> ''nan'')
      | None_cell \<Rightarrow> ''None'')"

definition reference_pandas :: pandas where
  "reference_pandas =
     \<lparr> name_cell = (\<lambda>df row. case row_class_name row of
                                None \<Rightarrow> None_cell | Some s \<Rightarrow> Str_cell s),
       id_cell = (\<lambda>df row.
          if \<forall>r \<in> set df. row_class_id r \<noteq> None
          then (case row_class_id row of None \<Rightarrow> None_cell | Some i \<Rightarrow> Int_cell i)
          else if \<forall>r \<in> set df. row_class_id r = None then None_cell
          else (case row_class_id row of
                  None \<Rightarrow> Float_cell NaN
                | Some i \<Rightarrow> Float_cell (fl (of_int i)))),
       format_cell = format_value,
       group_mean = skipna_mean,
       group_max = skipna_max \<rparr>"

text \<open>
  The order in which the groups are first met in the data frame, as the specification
  words the tie-break. Used only to compare with the order \<open>summarise\<close> gives.
\<close>

fun first_encountered :: "'a list \<Rightarrow> 'a list" where
  "first_encountered [] = []"
| "first_encountered (x # xs) = x # removeAll x (first_encountered xs)"

text \<open>An input for the tie-break: one image with a dog, then a cat, both at 0.5.\<close>

definition tied_records :: "image_record list" where
  "tied_records =
     [\<lparr> image = ''a.jpg'', image_path = ''a.jpg'', image_width = 100, image_height = 200,
        detections =
          [\<lparr> class_id = Some 1, class_name = Some ''dog'', confidence = Some (Finite (1 / 2)),
             bbox = (0, 0, 10, 10),
             bbox_norm = (Finite (1 / 16), Finite (1 / 32), Finite (1 / 8), Finite (1 / 16)) \<rparr>,
           \<lparr> class_id = Some 0, class_name = Some ''cat'', confidence = Some (Finite (1 / 2)),
             bbox = (20, 20, 30, 30),
             bbox_norm = (Finite (1 / 4), Finite (1 / 8), Finite (1 / 8), Finite (1 / 16)) \<rparr>],
        meta = None \<rparr>]"

section \<open>Properties of the float model\<close>

text \<open>
  The recursive equations of the binade search are used only through their two
  conditional forms, so that evaluating them on a number terminates.
\<close>

lemma binade_up_stop: "m < 2 \<Longrightarrow> binade_up m e = e" by simp
lemma binade_up_step: "\<not> m < 2 \<Longrightarrow> binade_up m e = binade_up (m / 2) (e + 1)" by simp
lemma binade_down_stop: "1 \<le> m \<or> e \<le> - 1022 \<Longrightarrow> binade_down m e = e" by simp
lemma binade_down_step:
  "\<not> (1 \<le> m \<or> e \<le> - 1022) \<Longrightarrow> binade_down m e = binade_down (2 * m) (e - 1)" by simp
declare binade_up.simps [simp del] binade_down.simps [simp del]

lemma py_round_mono: "x \<le> y \<Longrightarrow> py_round x \<le> py_round y"
proof -
  assume xy: "x \<le> y"
  have fl: "\<lfloor>x\<rfloor> \<le> \<lfloor>y\<rfloor>" using xy by (rule floor_mono)
  show ?thesis
  proof (cases "\<lfloor>x\<rfloor> = \<lfloor>y\<rfloor>")
    case True
    then show ?thesis using xy by (auto simp: py_round_def Let_def)
  next
    case False
    then have "\<lfloor>x\<rfloor> + 1 \<le> \<lfloor>y\<rfloor>" using fl by simp
    moreover have "py_round x \<le> \<lfloor>x\<rfloor> + 1" by (simp add: py_round_def Let_def)
    moreover have "\<lfloor>y\<rfloor> \<le> py_round y" by (simp add: py_round_def Let_def)
    ultimately show ?thesis by linarith
  qed
qed

lemma py_round_of_int: "py_round (of_int n) = n"
  by (simp add: py_round_def Let_def)

lemma two_powi_Suc: "(2::real) powi (k + 1) = 2 * 2 powi k"
  by (simp add: power_int_add)

lemma two_powi_pred: "(2::real) powi (k - 1) = 2 powi k / 2"
  by (simp add: power_int_diff)

lemma binade_up_spec:
  "1 \<le> m \<Longrightarrow> e \<le> binade_up m e \<and> 2 powi (binade_up m e - e) \<le> m \<and>
     m < 2 powi (binade_up m e - e + 1)"
proof (induction m e rule: binade_up.induct)
  case (1 m e)
  show ?case
  proof (cases "m < 2")
    case True
    then show ?thesis using "1.prems" by (simp add: binade_up_stop)
  next
    case False
    then have h: "1 \<le> m / 2" by simp
    note ih = "1.IH" [OF False h]
    have s: "binade_up m e = binade_up (m / 2) (e + 1)" using False by (rule binade_up_step)
    define r where "r = binade_up (m / 2) (e + 1)"
    have a: "e + 1 \<le> r" "2 powi (r - (e + 1)) \<le> m / 2" "m / 2 < 2 powi (r - (e + 1) + 1)"
      using ih by (simp_all add: r_def)
    have "2 powi (r - e) = 2 * (2::real) powi (r - (e + 1))"
      using two_powi_Suc [of "r - (e + 1)"] by (simp add: algebra_simps)
    moreover have "2 powi (r - e + 1) = 2 * (2::real) powi (r - (e + 1) + 1)"
      using two_powi_Suc [of "r - (e + 1) + 1"] by (simp add: algebra_simps)
    ultimately show ?thesis using a unfolding s r_def [symmetric] by simp
  qed
qed

lemma binade_down_spec:
  "0 < m \<Longrightarrow> m < 2 \<Longrightarrow> - 1022 \<le> e \<Longrightarrow>
     - 1022 \<le> binade_down m e \<and> binade_down m e \<le> e \<and>
     m * 2 powi (e - binade_down m e) < 2 \<and>
     (1 \<le> m * 2 powi (e - binade_down m e) \<or> binade_down m e = - 1022)"
proof (induction m e rule: binade_down.induct)
  case (1 m e)
  show ?case
  proof (cases "1 \<le> m \<or> e \<le> - 1022")
    case True
    then show ?thesis using "1.prems" by (auto simp: binade_down_stop)
  next
    case False
    then have h: "0 < 2 * m" "2 * m < 2" "- 1022 \<le> e - 1" using "1.prems" by simp_all
    note ih = "1.IH" [OF False h]
    have s: "binade_down m e = binade_down (2 * m) (e - 1)"
      using False by (rule binade_down_step)
    define r where "r = binade_down (2 * m) (e - 1)"
    have "2 powi (e - r) = 2 * (2::real) powi (e - 1 - r)"
      using two_powi_Suc [of "e - 1 - r"] by (simp add: algebra_simps)
    then have "m * 2 powi (e - r) = 2 * m * 2 powi (e - 1 - r)" by simp
    then show ?thesis using ih unfolding s r_def [symmetric] by auto
  qed
qed

text \<open>The binade of a positive magnitude.\<close>

lemma binade_spec:
  assumes "0 < m"
  shows "- 1022 \<le> binade m \<and> m < 2 powi (binade m + 1) \<and>
         (2 powi binade m \<le> m \<or> binade m = - 1022)"
proof (cases "1 \<le> m")
  case True
  from binade_up_spec [OF True, of 0] show ?thesis
    using True by (simp add: binade_def)
next
  case False
  then have m: "m < 2" by simp
  define r where "r = binade_down m 0"
  from binade_down_spec [OF assms m, of 0]
  have a: "- 1022 \<le> r" "r \<le> 0" "m * 2 powi (- r) < 2" "1 \<le> m * 2 powi (- r) \<or> r = - 1022"
    by (simp_all add: r_def)
  have p: "0 < (2::real) powi r" by simp
  have i: "(2::real) powi (- r) = 1 / 2 powi r" by (simp add: power_int_minus field_simps)
  have "m < 2 * 2 powi r" using a(3) p by (simp add: i field_simps)
  moreover have "2 powi r \<le> m \<or> r = - 1022" using a(4) p by (simp add: i field_simps)
  ultimately show ?thesis using a(1) False by (simp add: binade_def r_def two_powi_Suc)
qed


text \<open>Rounding a positive magnitude to its binade's grid is monotone.\<close>

lemma round_magnitude_upper:
  assumes "0 < m"
  shows "round_magnitude m \<le> 2 powi (binade m + 1)"
proof -
  define e where "e = binade m"
  define u :: real where "u = 2 powi (e - 52)"
  have u: "0 < u" by (simp add: u_def)
  have "m < 2 powi (e + 1)" using binade_spec [OF assms] by (simp add: e_def)
  moreover have "2 powi (e + 1) = of_int (2 ^ 53) * u"
    using power_int_add [of "2::real" 53 "e - 52"] by (simp add: u_def add.commute)
  ultimately have "m / u \<le> of_int (2 ^ 53)" using u by (simp add: field_simps)
  then have "py_round (m / u) \<le> py_round (of_int (2 ^ 53))" by (rule py_round_mono)
  then have "py_round (m / u) \<le> 2 ^ 53" unfolding py_round_of_int .
  then have "real_of_int (py_round (m / u)) \<le> of_int (2 ^ 53)" by linarith
  then have "of_int (py_round (m / u)) * u \<le> of_int (2 ^ 53) * u"
    using u by (simp add: mult_right_mono)
  then show ?thesis
    using \<open>2 powi (e + 1) = of_int (2 ^ 53) * u\<close>
    by (simp add: round_magnitude_def Let_def e_def [symmetric] u_def [symmetric])
qed

lemma round_magnitude_lower:
  assumes "0 < m" and "2 powi binade m \<le> m"
  shows "2 powi binade m \<le> round_magnitude m"
proof -
  define e where "e = binade m"
  define u :: real where "u = 2 powi (e - 52)"
  have u: "0 < u" by (simp add: u_def)
  have eq: "2 powi e = of_int (2 ^ 52) * u"
    using power_int_add [of "2::real" 52 "e - 52"] by (simp add: u_def add.commute)
  have "of_int (2 ^ 52) \<le> m / u" using assms(2) u by (simp add: eq e_def [symmetric] field_simps)
  then have "py_round (of_int (2 ^ 52)) \<le> py_round (m / u)" by (rule py_round_mono)
  then have "2 ^ 52 \<le> py_round (m / u)" unfolding py_round_of_int .
  then have "of_int (2 ^ 52) \<le> real_of_int (py_round (m / u))" by linarith
  then have "of_int (2 ^ 52) * u \<le> of_int (py_round (m / u)) * u"
    using u by (simp add: mult_right_mono)
  then show ?thesis
    by (simp add: round_magnitude_def Let_def e_def [symmetric] u_def [symmetric] eq)
qed

lemma round_magnitude_nonneg: "0 < m \<Longrightarrow> 0 \<le> round_magnitude m"
proof -
  assume "0 < m"
  then have "0 \<le> m / 2 powi (binade m - 52)" by simp
  then have "py_round (of_int 0) \<le> py_round (m / 2 powi (binade m - 52))"
    by (intro py_round_mono) simp
  then have "0 \<le> py_round (m / 2 powi (binade m - 52))" unfolding py_round_of_int .
  then show ?thesis by (simp add: round_magnitude_def Let_def)
qed

lemma round_magnitude_mono:
  assumes "0 < x" and "x \<le> y"
  shows "round_magnitude x \<le> round_magnitude y"
proof -
  have y: "0 < y" using assms by simp
  note bx = binade_spec [OF assms(1)] and bY = binade_spec [OF y]
  consider "binade x = binade y" | "binade x < binade y" | "binade y < binade x" by linarith
  then show ?thesis
  proof cases
    case 1
    define u :: real where "u = 2 powi (binade y - 52)"
    have u: "0 < u" by (simp add: u_def)
    have "x / u \<le> y / u" using assms(2) u by (simp add: divide_right_mono)
    then have "py_round (x / u) \<le> py_round (y / u)" by (rule py_round_mono)
    then have "real_of_int (py_round (x / u)) \<le> of_int (py_round (y / u))" by linarith
    then have "of_int (py_round (x / u)) * u \<le> of_int (py_round (y / u)) * u"
      using u by (simp add: mult_right_mono)
    then show ?thesis by (simp add: round_magnitude_def Let_def 1 u_def [symmetric])
  next
    case 2
    then have "binade y \<noteq> - 1022" using bx by linarith
    then have "2 powi binade y \<le> y" using bY by simp
    then have "2 powi binade y \<le> round_magnitude y" by (rule round_magnitude_lower [OF y])
    moreover have "round_magnitude x \<le> 2 powi (binade x + 1)"
      by (rule round_magnitude_upper [OF assms(1)])
    moreover have "(2::real) powi (binade x + 1) \<le> 2 powi binade y"
      using 2 by (intro power_int_increasing) simp_all
    ultimately show ?thesis by linarith
  next
    case 3
    then have "binade x \<noteq> - 1022" using bY by linarith
    then have "2 powi binade x \<le> x" using bx by simp
    moreover have "y < 2 powi (binade y + 1)" using bY by simp
    moreover have "(2::real) powi (binade y + 1) \<le> 2 powi binade x"
      using 3 by (intro power_int_increasing) simp_all
    ultimately show ?thesis using assms(2) by linarith
  qed
qed

lemma round_to_double_nonneg: "0 \<le> x \<Longrightarrow> 0 \<le> round_to_double x"
  by (simp add: round_to_double_def round_magnitude_nonneg)

lemma round_to_double_nonpos: "x \<le> 0 \<Longrightarrow> round_to_double x \<le> 0"
  by (simp add: round_to_double_def round_magnitude_nonneg)

lemma round_to_double_mono:
  assumes "x \<le> y"
  shows "round_to_double x \<le> round_to_double y"
proof -
  consider "0 < x" | "x \<le> 0" "0 \<le> y" | "y < 0" by linarith
  then show ?thesis
  proof cases
    case 1
    then show ?thesis
      using assms round_magnitude_mono [of x y] by (simp add: round_to_double_def)
  next
    case 2
    then show ?thesis
      using round_to_double_nonneg [of y] round_to_double_nonpos [of x] by linarith
  next
    case 3
    then have "0 < - y" "- y \<le> - x" using assms by simp_all
    from round_magnitude_mono [OF this] show ?thesis
      using 3 assms by (simp add: round_to_double_def)
  qed
qed

lemma round_to_double_one: "round_to_double 1 = 1"
  by (simp add: round_to_double_def round_magnitude_def binade_def binade_up_stop
      py_round_def Let_def)

lemma round_to_double_ge_one: "1 \<le> x \<Longrightarrow> 1 \<le> round_to_double x"
  using round_to_double_mono [of 1 x] by (simp add: round_to_double_one)

section \<open>Evaluation on concrete inputs\<close>

text \<open>
  The defining equations that evaluate the float operations, the conversion, the parser,
  the resolver and the summary on a concrete input.
\<close>

lemmas float_eval =
  fl_def round_to_double_def round_magnitude_def binade_def binade_up_stop binade_up_step
  binade_down_stop binade_down_step py_round_def Let_def

lemmas convert_eval =
  convert_to_pixels_def float_mul_int_def int_to_float_def and_then_def clamp_def py_min_def
  py_max_def float_sub_def float_neg_def float_half_def py_round_float_def float_eval

lemmas label_line_eval =
  parse_label_line_def parse_parts_def py_split_def py_strip_def is_space_def and_then_def
  float_of_token_def py_float_def strip_sign_def parse_number_def parse_exponent_def
  digitpart_def is_digit_def digit_val_def ascii_lower_def decimal_value_def mk_float_def
  nat_of_digits_def py_int_def trunc_toward_zero_def float_eval

lemmas resolver_eval =
  find_image_for_label_def set_iteration_def path_stem_def rfind_dot_def path_name_def
  path_parent_def IMAGE_EXTENSIONS_def rglob_def nested_run_def Let_def

lemmas summary_eval =
  summarise_def sort_values_desc_def sort_descending_def descending_rank_def groupby_agg_def
  group_keys_def aggregate_def row_key_def summary_key_def key_rank_def cell_rank_def
  display_of_def column_def build_dataframe_def confidence_or_zero_def reference_pandas_def
  skipna_mean_def skipna_max_def float_div_nat_def format_value_def float_eval

section \<open>Properties of the coordinate conversion\<close>

lemma clamp_Finite: "clamp v (Finite lo) (Finite hi) = Finite (clamp_value v lo hi)"
  by (cases v) (auto simp: clamp_def py_min_def py_max_def clamp_value_def)

lemma clamp_value_range: "lo \<le> hi \<Longrightarrow> lo \<le> clamp_value v lo hi \<and> clamp_value v lo hi \<le> hi"
  by (cases v) (auto simp: clamp_value_def)

lemma py_round_range:
  assumes "of_int a \<le> v" and "v \<le> of_int b"
  shows "a \<le> py_round v \<and> py_round v \<le> b"
proof -
  have "py_round (of_int a) \<le> py_round v" using assms(1) by (rule py_round_mono)
  moreover have "py_round v \<le> py_round (of_int b)" using assms(2) by (rule py_round_mono)
  ultimately show ?thesis unfolding py_round_of_int by simp
qed

lemma py_round_clamp_range:
  assumes "0 \<le> n"
  shows "0 \<le> py_round (clamp_value v 0 (of_int n)) \<and> py_round (clamp_value v 0 (of_int n)) \<le> n"
proof -
  have "(0::real) \<le> of_int n" using assms by simp
  from clamp_value_range [OF this, of v] show ?thesis
    by (intro py_round_range) simp_all
qed

lemma fl_cases:
  obtains "2 ^ 1024 - 2 ^ 970 \<le> x" "fl x = PosInf"
  | "x \<le> - (2 ^ 1024 - 2 ^ 970)" "fl x = NegInf"
  | "\<bar>x\<bar> < 2 ^ 1024 - 2 ^ 970" "fl x = Finite (round_to_double x)"
proof (cases "2 ^ 1024 - 2 ^ 970 \<le> \<bar>x\<bar>")
  case True
  show ?thesis
  proof (cases "x < 0")
    case True
    with \<open>2 ^ 1024 - 2 ^ 970 \<le> \<bar>x\<bar>\<close> show ?thesis by (intro that(2)) (simp_all add: fl_def)
  next
    case False
    with \<open>2 ^ 1024 - 2 ^ 970 \<le> \<bar>x\<bar>\<close> show ?thesis by (intro that(1)) (simp_all add: fl_def)
  qed
next
  case False
  then show ?thesis by (intro that(3)) (simp_all add: fl_def)
qed

lemma clamp_value_fl_mono:
  assumes "x \<le> y" and "lo \<le> hi"
  shows "clamp_value (fl x) lo hi \<le> clamp_value (fl y) lo hi"
proof (cases x rule: fl_cases)
  case 1
  then have "2 ^ 1024 - 2 ^ 970 \<le> y" using assms(1) by linarith
  then have "fl y = PosInf" by (simp add: fl_def)
  then show ?thesis using 1 by simp
next
  case 2
  then show ?thesis using clamp_value_range [OF assms(2), of "fl y"] by (simp add: clamp_value_def)
next
  case x: 3
  show ?thesis
  proof (cases y rule: fl_cases)
    case 1
    then show ?thesis using clamp_value_range [OF assms(2), of "fl x"] assms(2)
      by (simp add: clamp_value_def)
  next
    case 2
    then have "x \<le> - (2 ^ 1024 - 2 ^ 970)" using assms(1) by linarith
    then show ?thesis using x by linarith
  next
    case 3
    have "round_to_double x \<le> round_to_double y" using assms(1) by (rule round_to_double_mono)
    then show ?thesis using x 3 by (auto simp: clamp_value_def)
  qed
qed

lemma fl_nonneg: "0 \<le> x \<Longrightarrow> float_le (Finite 0) (fl x)"
  by (cases x rule: fl_cases) (simp_all add: round_to_double_nonneg)

lemma float_le_zero_cases:
  "float_le (Finite 0) a \<longleftrightarrow> a = PosInf \<or> (\<exists>q. a = Finite q \<and> 0 \<le> q)"
  by (cases a) simp_all

lemma float_mul_nonneg:
  "float_le (Finite 0) a \<Longrightarrow> 0 < y \<Longrightarrow> float_le (Finite 0) (float_mul a (Finite y))"
  by (auto simp: float_le_zero_cases [of a] intro!: fl_nonneg)

lemma float_half_nonneg: "float_le (Finite 0) a \<Longrightarrow> float_le (Finite 0) (float_half a)"
  by (auto simp: float_le_zero_cases [of a] float_half_def intro!: fl_nonneg)

text \<open>The lower edge never lies above the upper edge when the half size is not negative.\<close>

lemma edge_order:
  assumes "float_le (Finite 0) b" and "lo \<le> hi"
  shows "clamp_value (float_sub a b) lo hi \<le> clamp_value (float_add a b) lo hi"
proof -
  consider "b = PosInf" | q where "b = Finite q" "0 \<le> q"
    using assms(1) by (auto simp: float_le_zero_cases)
  then show ?thesis
  proof cases
    case 1
    then show ?thesis using assms(2)
      by (cases a) (simp_all add: float_sub_def float_neg_def clamp_value_def)
  next
    case 2
    show ?thesis
    proof (cases a)
      case (Finite x)
      have "x + - q \<le> x + q" using 2 by simp
      from clamp_value_fl_mono [OF this assms(2)] show ?thesis
        by (simp add: Finite 2 float_sub_def float_neg_def)
    qed (simp_all add: 2 float_sub_def float_neg_def)
  qed
qed

lemma int_to_float_cases:
  obtains "2 ^ 1024 - 2 ^ 970 \<le> \<bar>n\<bar>" "int_to_float n = Inl OverflowError"
  | "\<bar>n\<bar> < 2 ^ 1024 - 2 ^ 970" "int_to_float n = Inr (Finite (round_to_double (of_int n)))"
proof (cases "2 ^ 1024 - 2 ^ 970 \<le> \<bar>n\<bar>")
  case True
  then have "(2::real) ^ 1024 - 2 ^ 970 \<le> \<bar>of_int n\<bar>"
  proof -
    have "real_of_int (2 ^ 1024 - 2 ^ 970) \<le> real_of_int \<bar>n\<bar>" using True by linarith
    then show ?thesis by simp
  qed
  then have "int_to_float n = Inl OverflowError" by (simp add: int_to_float_def fl_def)
  with True show ?thesis by (rule that(1))
next
  case False
  then have "real_of_int \<bar>n\<bar> < real_of_int (2 ^ 1024 - 2 ^ 970)" by linarith
  then have "\<not> (2::real) ^ 1024 - 2 ^ 970 \<le> \<bar>of_int n\<bar>" by simp
  then have "int_to_float n = Inr (Finite (round_to_double (of_int n)))"
    by (simp add: int_to_float_def fl_def)
  with False show ?thesis by (intro that(2)) simp_all
qed

text \<open>The conversion in closed form, once both image dimensions convert to floats.\<close>

lemma convert_to_pixels_Inr:
  assumes "int_to_float width = Inr fw" and "int_to_float height = Inr fh"
  shows "convert_to_pixels cx cy w h width height =
     Inr (py_round (clamp_value (float_sub (float_mul cx fw) (float_half (float_mul w fw)))
            0 (of_int width)),
          py_round (clamp_value (float_sub (float_mul cy fh) (float_half (float_mul h fh)))
            0 (of_int height)),
          py_round (clamp_value (float_add (float_mul cx fw) (float_half (float_mul w fw)))
            0 (of_int width)),
          py_round (clamp_value (float_add (float_mul cy fh) (float_half (float_mul h fh)))
            0 (of_int height)))"
  by (simp add: convert_to_pixels_def float_mul_int_def and_then_def assms clamp_Finite
      py_round_float_def Let_def)

lemma convert_to_pixels_Inl:
  assumes "int_to_float width = Inl OverflowError \<or> int_to_float height = Inl OverflowError"
  shows "convert_to_pixels cx cy w h width height = Inl OverflowError"
proof (cases width rule: int_to_float_cases)
  case 1
  then show ?thesis by (simp add: convert_to_pixels_def float_mul_int_def and_then_def)
next
  case 2
  then have "int_to_float height = Inl OverflowError" using assms by simp
  then show ?thesis using 2 by (simp add: convert_to_pixels_def float_mul_int_def and_then_def)
qed

lemma convert_to_pixels_returns:
  "(\<exists>r. convert_to_pixels cx cy w h width height = Inr r) \<longleftrightarrow>
     \<bar>width\<bar> < 2 ^ 1024 - 2 ^ 970 \<and> \<bar>height\<bar> < 2 ^ 1024 - 2 ^ 970"
proof (cases width rule: int_to_float_cases)
  case 1
  then show ?thesis using convert_to_pixels_Inl [of width height cx cy w h] by simp
next
  case w: 2
  show ?thesis
  proof (cases height rule: int_to_float_cases)
    case 1
    then show ?thesis using convert_to_pixels_Inl [of width height cx cy w h] by simp
  next
    case 2
    then show ?thesis using w convert_to_pixels_Inr [OF w(2) 2(2), of cx cy w h] by simp
  qed
qed

lemma convert_to_pixels_returns_pos:
  assumes "0 < width" and "0 < height"
  shows "(\<exists>r. convert_to_pixels cx cy w h width height = Inr r) \<longleftrightarrow>
     width < 2 ^ 1024 - 2 ^ 970 \<and> height < 2 ^ 1024 - 2 ^ 970"
  unfolding convert_to_pixels_returns using assms by simp

lemma py_round_nearest: "nearest_ties_even v (py_round v)"
proof -
  define f where "f = \<lfloor>v\<rfloor>"
  define d where "d = v - of_int f"
  have d: "0 \<le> d" "d < 1" unfolding d_def f_def by linarith+
  have r: "py_round v = (if d < 1 / 2 then f else if 1 / 2 < d then f + 1
                         else if even f then f else f + 1)"
    by (simp add: py_round_def Let_def f_def d_def)
  have df: "of_int f - v = - d" by (simp add: d_def)
  have df1: "of_int (f + 1) - v = 1 - d" by (simp add: d_def)
  show ?thesis
  proof (cases "d < 1 / 2")
    case True
    then show ?thesis using d unfolding nearest_ties_even_def r by (simp add: df)
  next
    case False
    show ?thesis
    proof (cases "1 / 2 < d")
      case True
      then show ?thesis
        using d False unfolding nearest_ties_even_def r by (simp add: df1 del: of_int_add)
    next
      case False
      with \<open>\<not> d < 1 / 2\<close> have "d = 1 / 2" by simp
      then show ?thesis
        unfolding nearest_ties_even_def r by (simp add: df df1 del: of_int_add)
    qed
  qed
qed

text \<open>
  C9. For all float inputs \<open>cx\<close>, \<open>cy\<close>, \<open>w\<close>, \<open>h\<close> (every real value, of any sign or
  magnitude, and also the infinities and NaN) and positive integer \<open>width\<close> and
  \<open>height\<close>, every output coordinate of the conversion is within bounds: \<open>x1\<close> and \<open>x2\<close>
  lie in \<open>[0, width]\<close>, \<open>y1\<close> and \<open>y2\<close> in \<open>[0, height]\<close>. Nothing is said about the
  order of \<open>x1\<close> and \<open>x2\<close>. The conversion returns for every image dimension that a
  float can hold (below \<open>2^1024 - 2^970\<close>).
\<close>

theorem convert_to_pixels_within_bounds:
  assumes "0 < width" and "0 < height"
  shows "(\<forall>x1 y1 x2 y2.
            convert_to_pixels cx cy w h width height = Inr (x1, y1, x2, y2) \<longrightarrow>
            0 \<le> x1 \<and> x1 \<le> width \<and> 0 \<le> x2 \<and> x2 \<le> width \<and>
            0 \<le> y1 \<and> y1 \<le> height \<and> 0 \<le> y2 \<and> y2 \<le> height) \<and>
         ((\<exists>r. convert_to_pixels cx cy w h width height = Inr r) \<longleftrightarrow>
            width < 2 ^ 1024 - 2 ^ 970 \<and> height < 2 ^ 1024 - 2 ^ 970)"
proof -
  have W: "0 \<le> width" and H: "0 \<le> height" using assms by simp_all
  have bounds: "0 \<le> x1 \<and> x1 \<le> width \<and> 0 \<le> x2 \<and> x2 \<le> width \<and>
      0 \<le> y1 \<and> y1 \<le> height \<and> 0 \<le> y2 \<and> y2 \<le> height"
    if r: "convert_to_pixels cx cy w h width height = Inr (x1, y1, x2, y2)" for x1 y1 x2 y2
  proof -
    from r convert_to_pixels_returns [of cx cy w h width height]
    have "\<bar>width\<bar> < 2 ^ 1024 - 2 ^ 970" "\<bar>height\<bar> < 2 ^ 1024 - 2 ^ 970" by auto
    then obtain fw fh where f: "int_to_float width = Inr fw" "int_to_float height = Inr fh"
      by (cases width rule: int_to_float_cases; cases height rule: int_to_float_cases) auto
    from r show ?thesis
      unfolding convert_to_pixels_Inr [OF f]
      using py_round_clamp_range [OF W] py_round_clamp_range [OF H] by auto
  qed
  have "(\<exists>r. convert_to_pixels cx cy w h width height = Inr r) \<longleftrightarrow>
      width < 2 ^ 1024 - 2 ^ 970 \<and> height < 2 ^ 1024 - 2 ^ 970"
    using assms(1,2) by (rule convert_to_pixels_returns_pos)
  with bounds show ?thesis by blast
qed

text \<open>
  Witness for C9, at the floats of the line \<open>0 0.5 0.5 -0.2 0.4\<close>, whose box has a
  negative width: the coordinates are within bounds although \<open>x2 < x1\<close>.
\<close>

theorem convert_to_pixels_within_bounds_witness:
  "convert_to_pixels (Finite (1 / 2)) (Finite (1 / 2))
     (Finite (- (3602879701896397 / 18014398509481984)))
     (Finite (3602879701896397 / 9007199254740992)) 100 200 = Inr (60, 60, 40, 140) \<and>
   (0::int) \<le> 60 \<and> (60::int) \<le> 100 \<and> (0::int) \<le> 40 \<and> (40::int) \<le> 100 \<and>
   (0::int) \<le> 60 \<and> (60::int) \<le> 200 \<and> (0::int) \<le> 140 \<and> (140::int) \<le> 200"
proof -
  have e: "convert_to_pixels (Finite (1 / 2)) (Finite (1 / 2))
     (Finite (- (3602879701896397 / 18014398509481984)))
     (Finite (3602879701896397 / 9007199254740992)) 100 200 = Inr (60, 60, 40, 140)"
    by (simp add: convert_eval)
  from convert_to_pixels_within_bounds [of 100 200 "Finite (1 / 2)" "Finite (1 / 2)"
      "Finite (- (3602879701896397 / 18014398509481984))"
      "Finite (3602879701896397 / 9007199254740992)"] e
  show ?thesis by simp
qed

text \<open>
  C1 (as stated, refuted). The parser accepts the line \<open>0 0.5 0.5 -0.2 0.4\<close>, whose
  width is negative; on a 100 x 200 image the conversion returns \<open>x1 = 60\<close> and
  \<open>x2 = 40\<close>, so \<open>x1 \<le> x2\<close> fails.
\<close>

theorem convert_to_pixels_unordered_counterexample:
  "parse_label_line ''0 0.5 0.5 -0.2 0.4'' =
     Inr (0, Finite (1 / 2), Finite (1 / 2),
          Finite (- (3602879701896397 / 18014398509481984)),
          Finite (3602879701896397 / 9007199254740992), None) \<and>
   convert_to_pixels (Finite (1 / 2)) (Finite (1 / 2))
     (Finite (- (3602879701896397 / 18014398509481984)))
     (Finite (3602879701896397 / 9007199254740992)) 100 200 = Inr (60, 60, 40, 140) \<and>
   (40::int) < 60"
  by (simp add: label_line_eval convert_eval)

text \<open>
  C1 (amended). For all floats \<open>cx\<close>, \<open>cy\<close> and all floats \<open>w\<close>, \<open>h\<close> that are not
  negative (\<open>0 <= w\<close> and \<open>0 <= h\<close> hold), and all positive integer \<open>width\<close> and
  \<open>height\<close>, the converted box satisfies \<open>0 \<le> x1 \<le> x2 \<le> width\<close> and
  \<open>0 \<le> y1 \<le> y2 \<le> height\<close>. The conversion returns for every image dimension that a
  float can hold.
\<close>

theorem convert_to_pixels_ordered_box:
  assumes "0 < width" and "0 < height"
    and "float_le (Finite 0) w" and "float_le (Finite 0) h"
  shows "(\<forall>x1 y1 x2 y2.
            convert_to_pixels cx cy w h width height = Inr (x1, y1, x2, y2) \<longrightarrow>
            0 \<le> x1 \<and> x1 \<le> x2 \<and> x2 \<le> width \<and> 0 \<le> y1 \<and> y1 \<le> y2 \<and> y2 \<le> height) \<and>
         ((\<exists>r. convert_to_pixels cx cy w h width height = Inr r) \<longleftrightarrow>
            width < 2 ^ 1024 - 2 ^ 970 \<and> height < 2 ^ 1024 - 2 ^ 970)"
proof -
  have W: "0 \<le> width" and H: "0 \<le> height" using assms by simp_all
  have Wr: "(0::real) \<le> of_int width" and Hr: "(0::real) \<le> of_int height"
    using assms by simp_all
  have box: "0 \<le> x1 \<and> x1 \<le> x2 \<and> x2 \<le> width \<and> 0 \<le> y1 \<and> y1 \<le> y2 \<and> y2 \<le> height"
    if r: "convert_to_pixels cx cy w h width height = Inr (x1, y1, x2, y2)" for x1 y1 x2 y2
  proof -
    from r convert_to_pixels_returns [of cx cy w h width height]
    have small: "\<bar>width\<bar> < 2 ^ 1024 - 2 ^ 970" "\<bar>height\<bar> < 2 ^ 1024 - 2 ^ 970" by auto
    define a where "a = round_to_double (of_int width)"
    define b where "b = round_to_double (of_int height)"
    have f: "int_to_float width = Inr (Finite a)" "int_to_float height = Inr (Finite b)"
      using small
      by (cases width rule: int_to_float_cases; cases height rule: int_to_float_cases;
          simp add: a_def b_def)+
    have a: "0 < a" using round_to_double_ge_one [of "of_int width"] assms(1)
      by (simp add: a_def)
    have b: "0 < b" using round_to_double_ge_one [of "of_int height"] assms(2)
      by (simp add: b_def)
    have hw: "float_le (Finite 0) (float_half (float_mul w (Finite a)))"
      by (intro float_half_nonneg float_mul_nonneg assms(3) a)
    have hh: "float_le (Finite 0) (float_half (float_mul h (Finite b)))"
      by (intro float_half_nonneg float_mul_nonneg assms(4) b)
    note ox = edge_order [OF hw Wr, of "float_mul cx (Finite a)"]
    note oy = edge_order [OF hh Hr, of "float_mul cy (Finite b)"]
    from r show ?thesis
      unfolding convert_to_pixels_Inr [OF f]
      using py_round_clamp_range [OF W] py_round_clamp_range [OF H]
        py_round_mono [OF ox] py_round_mono [OF oy]
      by auto
  qed
  have "(\<exists>r. convert_to_pixels cx cy w h width height = Inr r) \<longleftrightarrow>
      width < 2 ^ 1024 - 2 ^ 970 \<and> height < 2 ^ 1024 - 2 ^ 970"
    using assms(1,2) by (rule convert_to_pixels_returns_pos)
  with box show ?thesis by blast
qed

theorem convert_to_pixels_ordered_box_witness:
  "(0::int) < 100 \<and> (0::int) < 200 \<and>
   float_le (Finite 0) (Finite (3602879701896397 / 18014398509481984)) \<and>
   float_le (Finite 0) (Finite (3602879701896397 / 9007199254740992)) \<and>
   convert_to_pixels (Finite (1 / 2)) (Finite (1 / 2))
     (Finite (3602879701896397 / 18014398509481984))
     (Finite (3602879701896397 / 9007199254740992)) 100 200 = Inr (40, 60, 60, 140) \<and>
   (0::int) \<le> 40 \<and> (40::int) \<le> 60 \<and> (60::int) \<le> 100 \<and>
   (0::int) \<le> 60 \<and> (60::int) \<le> 140 \<and> (140::int) \<le> 200"
proof -
  have e: "convert_to_pixels (Finite (1 / 2)) (Finite (1 / 2))
     (Finite (3602879701896397 / 18014398509481984))
     (Finite (3602879701896397 / 9007199254740992)) 100 200 = Inr (40, 60, 60, 140)"
    by (simp add: convert_eval)
  from convert_to_pixels_ordered_box [of 100 200
      "Finite (3602879701896397 / 18014398509481984)"
      "Finite (3602879701896397 / 9007199254740992)" "Finite (1 / 2)" "Finite (1 / 2)"] e
  show ?thesis by simp
qed

text \<open>
  C3 (as stated, refuted). With \<open>cx = cy = 0.5\<close> and a box of size zero on a 5 x 5 image
  every edge is 2.5. The source rounds it to 2 (ties go to the even integer); rounding
  half away from zero, as the claim says, gives 3.
\<close>

theorem convert_to_pixels_half_away_counterexample:
  "convert_to_pixels (Finite (1 / 2)) (Finite (1 / 2)) (Finite 0) (Finite 0) 5 5 =
     Inr (2, 2, 2, 2) \<and>
   convert_to_pixels_half_away (Finite (1 / 2)) (Finite (1 / 2)) (Finite 0) (Finite 0) 5 5 =
     Inr (3, 3, 3, 3)"
  by (simp add: convert_eval convert_to_pixels_half_away_def round_half_away_float_def
      round_half_away_def)

text \<open>
  C3 (amended). The conversion computes \<open>x_center = cx\<cdot>width\<close>, \<open>y_center = cy\<cdot>height\<close>,
  \<open>box_w = w\<cdot>width\<close>, \<open>box_h = h\<cdot>height\<close> and the four edges
  \<open>x_center \<plusminus> box_w/2\<close>, \<open>y_center \<plusminus> box_h/2\<close> in double-precision arithmetic (each
  operation rounded to the nearest double), clamps each edge to \<open>[0, width]\<close> or
  \<open>[0, height]\<close>, and rounds each to the nearest integer with ties resolved to the even
  integer; in particular the line \<open>0 0.5 0.5 0.2 0.4 0.9\<close> on a 100 x 200 image yields
  \<open>(40, 60, 60, 140)\<close>.
\<close>

theorem convert_to_pixels_rounds_half_even:
  assumes "convert_to_pixels cx cy w h width height = Inr (x1, y1, x2, y2)"
  shows "(\<exists>fw fh e1 e2 e3 e4.
            int_to_float width = Inr fw \<and> int_to_float height = Inr fh \<and>
            clamp (float_sub (float_mul cx fw) (float_half (float_mul w fw)))
              (Finite 0) (Finite (of_int width)) = Finite e1 \<and> nearest_ties_even e1 x1 \<and>
            clamp (float_sub (float_mul cy fh) (float_half (float_mul h fh)))
              (Finite 0) (Finite (of_int height)) = Finite e2 \<and> nearest_ties_even e2 y1 \<and>
            clamp (float_add (float_mul cx fw) (float_half (float_mul w fw)))
              (Finite 0) (Finite (of_int width)) = Finite e3 \<and> nearest_ties_even e3 x2 \<and>
            clamp (float_add (float_mul cy fh) (float_half (float_mul h fh)))
              (Finite 0) (Finite (of_int height)) = Finite e4 \<and> nearest_ties_even e4 y2) \<and>
         parse_label_line ''0 0.5 0.5 0.2 0.4 0.9'' =
           Inr (0, Finite (1 / 2), Finite (1 / 2),
                Finite (3602879701896397 / 18014398509481984),
                Finite (3602879701896397 / 9007199254740992),
                Some (Finite (8106479329266893 / 9007199254740992))) \<and>
         convert_to_pixels (Finite (1 / 2)) (Finite (1 / 2))
           (Finite (3602879701896397 / 18014398509481984))
           (Finite (3602879701896397 / 9007199254740992)) 100 200 = Inr (40, 60, 60, 140)"
proof -
  from assms convert_to_pixels_returns [of cx cy w h width height]
  have "\<bar>width\<bar> < 2 ^ 1024 - 2 ^ 970" "\<bar>height\<bar> < 2 ^ 1024 - 2 ^ 970" by auto
  then obtain fw fh where f: "int_to_float width = Inr fw" "int_to_float height = Inr fh"
    by (cases width rule: int_to_float_cases; cases height rule: int_to_float_cases) auto
  from assms have eqs:
    "x1 = py_round (clamp_value (float_sub (float_mul cx fw) (float_half (float_mul w fw)))
       0 (of_int width))"
    "y1 = py_round (clamp_value (float_sub (float_mul cy fh) (float_half (float_mul h fh)))
       0 (of_int height))"
    "x2 = py_round (clamp_value (float_add (float_mul cx fw) (float_half (float_mul w fw)))
       0 (of_int width))"
    "y2 = py_round (clamp_value (float_add (float_mul cy fh) (float_half (float_mul h fh)))
       0 (of_int height))"
    unfolding convert_to_pixels_Inr [OF f] by simp_all
  have edges: "\<exists>fw fh e1 e2 e3 e4.
      int_to_float width = Inr fw \<and> int_to_float height = Inr fh \<and>
      clamp (float_sub (float_mul cx fw) (float_half (float_mul w fw)))
        (Finite 0) (Finite (of_int width)) = Finite e1 \<and> nearest_ties_even e1 x1 \<and>
      clamp (float_sub (float_mul cy fh) (float_half (float_mul h fh)))
        (Finite 0) (Finite (of_int height)) = Finite e2 \<and> nearest_ties_even e2 y1 \<and>
      clamp (float_add (float_mul cx fw) (float_half (float_mul w fw)))
        (Finite 0) (Finite (of_int width)) = Finite e3 \<and> nearest_ties_even e3 x2 \<and>
      clamp (float_add (float_mul cy fh) (float_half (float_mul h fh)))
        (Finite 0) (Finite (of_int height)) = Finite e4 \<and> nearest_ties_even e4 y2"
    unfolding eqs clamp_Finite using f by (simp add: py_round_nearest)
  have p: "parse_label_line ''0 0.5 0.5 0.2 0.4 0.9'' =
      Inr (0, Finite (1 / 2), Finite (1 / 2),
           Finite (3602879701896397 / 18014398509481984),
           Finite (3602879701896397 / 9007199254740992),
           Some (Finite (8106479329266893 / 9007199254740992)))"
    by (simp add: label_line_eval float_eval)
  have e: "convert_to_pixels (Finite (1 / 2)) (Finite (1 / 2))
      (Finite (3602879701896397 / 18014398509481984))
      (Finite (3602879701896397 / 9007199254740992)) 100 200 = Inr (40, 60, 60, 140)"
    by (simp add: convert_eval)
  from edges p e show ?thesis by (intro conjI)
qed

text \<open>
  Witness for C3, at the double nearest to 0.35 with a box of size zero on a 10 x 10
  image: the product with 10 rounds to the double 3.5, a tie, which goes to the even
  integer 4.
\<close>

theorem convert_to_pixels_rounds_half_even_witness:
  "convert_to_pixels (Finite (3152519739159347 / 9007199254740992)) (Finite (1 / 2))
     (Finite 0) (Finite 0) 10 10 = Inr (4, 5, 4, 5) \<and>
   int_to_float 10 = Inr (Finite 10) \<and>
   clamp (float_sub (float_mul (Finite (3152519739159347 / 9007199254740992)) (Finite 10))
            (float_half (float_mul (Finite 0) (Finite 10))))
     (Finite 0) (Finite (of_int 10)) = Finite (7 / 2) \<and>
   nearest_ties_even (7 / 2) 4"
proof -
  have e: "convert_to_pixels (Finite (3152519739159347 / 9007199254740992)) (Finite (1 / 2))
     (Finite 0) (Finite 0) 10 10 = Inr (4, 5, 4, 5)"
    by (simp add: convert_eval)
  have i: "int_to_float 10 = Inr (Finite 10)"
    by (simp add: convert_eval)
  have c: "clamp (float_sub (float_mul (Finite (3152519739159347 / 9007199254740992)) (Finite 10))
            (float_half (float_mul (Finite 0) (Finite 10))))
     (Finite 0) (Finite (of_int 10)) = Finite (7 / 2)"
    by (simp add: convert_eval)
  from convert_to_pixels_rounds_half_even [OF e] obtain fw e1 where
    o: "int_to_float 10 = Inr fw"
    "clamp (float_sub (float_mul (Finite (3152519739159347 / 9007199254740992)) fw)
            (float_half (float_mul (Finite 0) fw)))
       (Finite 0) (Finite (of_int 10)) = Finite e1"
    "nearest_ties_even e1 4"
    by blast
  have "fw = Finite 10" using o(1) i by simp
  then have "Finite e1 = Finite (7 / 2)" using o(2) c by (simp only:)
  then have e1: "e1 = 7 / 2" by (simp only: pyfloat.inject)
  have "nearest_ties_even (7 / 2) 4" using o(3) unfolding e1 .
  with e i c show ?thesis by (intro conjI)
qed

section \<open>Properties of the label-line parser\<close>

lemma float_of_token_Inr: "float_of_token tok = Inr x \<longleftrightarrow> py_float tok = Some x"
  by (simp add: float_of_token_def split: option.splits)

lemma float_of_token_Inl: "float_of_token tok = Inl e \<longleftrightarrow> py_float tok = None \<and> e = ValueError"
  by (auto simp: float_of_token_def split: option.splits)

lemma py_int_Inr: "py_int x = Inr n \<longleftrightarrow> (\<exists>q. x = Finite q \<and> n = trunc_toward_zero q)"
  by (auto simp: py_int_def split: pyfloat.splits)

lemma py_int_ValueError: "py_int x = Inl ValueError \<longleftrightarrow> x = NaN"
  by (auto simp: py_int_def split: pyfloat.splits)

lemma and_then_Inr: "and_then r f = Inr y \<longleftrightarrow> (\<exists>x. r = Inr x \<and> f x = Inr y)"
  by (cases r) (simp_all add: and_then_def)

lemma and_then_Inl:
  "and_then r f = Inl e \<longleftrightarrow> r = Inl e \<or> (\<exists>x. r = Inr x \<and> f x = Inl e)"
  by (cases r) (simp_all add: and_then_def)

lemma parse_parts_Inr:
  "parse_parts parts = Inr (cid, cx, cy, w, h, conf) \<longleftrightarrow>
     5 \<le> length parts \<and>
     (\<exists>q. py_float (parts ! 0) = Some (Finite q) \<and> cid = trunc_toward_zero q) \<and>
     py_float (parts ! 1) = Some cx \<and> py_float (parts ! 2) = Some cy \<and>
     py_float (parts ! 3) = Some w \<and> py_float (parts ! 4) = Some h \<and>
     (if 5 < length parts then \<exists>c. py_float (parts ! 5) = Some c \<and> conf = Some c
      else conf = None)"
  unfolding parse_parts_def
  by (simp add: and_then_Inr py_int_Inr float_of_token_Inr) auto

lemma parse_parts_ValueError:
  "parse_parts parts = Inl ValueError \<longleftrightarrow>
     length parts < 5 \<or> py_float (parts ! 0) = None \<or> py_float (parts ! 0) = Some NaN \<or>
     (\<exists>q. py_float (parts ! 0) = Some (Finite q)) \<and>
     (py_float (parts ! 1) = None \<or> py_float (parts ! 2) = None \<or>
      py_float (parts ! 3) = None \<or> py_float (parts ! 4) = None \<or>
      5 < length parts \<and> py_float (parts ! 5) = None)"
proof (cases "length parts < 5")
  case True
  then show ?thesis by (simp add: parse_parts_def)
next
  case False
  show ?thesis
  proof (cases "py_float (parts ! 0)")
    case None
    then show ?thesis using False
      by (simp add: parse_parts_def and_then_def float_of_token_def)
  next
    case (Some x)
    show ?thesis
    proof (cases x)
      case (Finite q)
      then show ?thesis using False Some
        by (auto simp: parse_parts_def and_then_def float_of_token_def py_int_def
            split: option.splits)
    qed (use False Some in \<open>simp_all add: parse_parts_def and_then_def float_of_token_def py_int_def\<close>)
  qed
qed

text \<open>
  C4 (as stated, refuted). The first token \<open>1.5\<close> is not integral, yet the line is
  accepted, with class id 1. And the line \<open>nan 0 0 0 0\<close> is rejected although it has
  five tokens and \<open>float\<close> accepts each of them.
\<close>

theorem parse_label_line_class_id_counterexample:
  "parse_label_line ''1.5 0 0 0 0'' = Inr (1, Finite 0, Finite 0, Finite 0, Finite 0, None) \<and>
   py_float ''1.5'' = Some (Finite (3 / 2)) \<and>
   real_of_int (trunc_toward_zero (3 / 2)) \<noteq> 3 / 2 \<and>
   parse_label_line ''nan 0 0 0 0'' = Inl ValueError \<and>
   py_float ''nan'' = Some NaN \<and> py_float ''0'' = Some (Finite 0)"
  by (simp add: label_line_eval)

text \<open>
  C4 (amended). With \<open>parts\<close> the white-space tokens of the line, the parser returns a
  result exactly when there are at least 5 tokens, \<open>float\<close> accepts each of the first
  five (and the sixth, when present), and the first token denotes a finite number;
  the class id is then the float value of the first token truncated toward zero, whether
  or not that value is integral. The parser fails with ValueError (the ParseError)
  exactly when there are fewer than 5 tokens, or \<open>float\<close> rejects the first token or
  reads it as NaN, or the first token is finite and \<open>float\<close> rejects one of the next four
  tokens (or the sixth, when present).
\<close>

theorem parse_label_line_result_iff:
  assumes "parts = py_split (py_strip line)"
  shows "((\<exists>r. parse_label_line line = Inr r) \<longleftrightarrow>
            5 \<le> length parts \<and>
            (\<exists>q. py_float (parts ! 0) = Some (Finite q)) \<and>
            py_float (parts ! 1) \<noteq> None \<and> py_float (parts ! 2) \<noteq> None \<and>
            py_float (parts ! 3) \<noteq> None \<and> py_float (parts ! 4) \<noteq> None \<and>
            (5 < length parts \<longrightarrow> py_float (parts ! 5) \<noteq> None)) \<and>
         (parse_label_line line = Inl ValueError \<longleftrightarrow>
            length parts < 5 \<or> py_float (parts ! 0) = None \<or>
            py_float (parts ! 0) = Some NaN \<or>
            (\<exists>q. py_float (parts ! 0) = Some (Finite q)) \<and>
            (py_float (parts ! 1) = None \<or> py_float (parts ! 2) = None \<or>
             py_float (parts ! 3) = None \<or> py_float (parts ! 4) = None \<or>
             5 < length parts \<and> py_float (parts ! 5) = None)) \<and>
         (\<forall>cid cx cy w h conf.
            parse_label_line line = Inr (cid, cx, cy, w, h, conf) \<longrightarrow>
            (\<exists>q. py_float (parts ! 0) = Some (Finite q) \<and> cid = trunc_toward_zero q))"
proof -
  have l: "parse_label_line line = parse_parts parts"
    by (simp add: parse_label_line_def assms)
  have "(\<exists>r. parse_parts parts = Inr r) \<longleftrightarrow>
        (\<exists>cid cx cy w h conf. parse_parts parts = Inr (cid, cx, cy, w, h, conf))"
    by auto
  also have "\<dots> \<longleftrightarrow>
        5 \<le> length parts \<and>
        (\<exists>q. py_float (parts ! 0) = Some (Finite q)) \<and>
        py_float (parts ! 1) \<noteq> None \<and> py_float (parts ! 2) \<noteq> None \<and>
        py_float (parts ! 3) \<noteq> None \<and> py_float (parts ! 4) \<noteq> None \<and>
        (5 < length parts \<longrightarrow> py_float (parts ! 5) \<noteq> None)"
    unfolding parse_parts_Inr by auto
  finally have a: "(\<exists>r. parse_parts parts = Inr r) \<longleftrightarrow>
        5 \<le> length parts \<and>
        (\<exists>q. py_float (parts ! 0) = Some (Finite q)) \<and>
        py_float (parts ! 1) \<noteq> None \<and> py_float (parts ! 2) \<noteq> None \<and>
        py_float (parts ! 3) \<noteq> None \<and> py_float (parts ! 4) \<noteq> None \<and>
        (5 < length parts \<longrightarrow> py_float (parts ! 5) \<noteq> None)" .
  have c: "\<forall>cid cx cy w h conf.
        parse_parts parts = Inr (cid, cx, cy, w, h, conf) \<longrightarrow>
        (\<exists>q. py_float (parts ! 0) = Some (Finite q) \<and> cid = trunc_toward_zero q)"
    by (simp add: parse_parts_Inr)
  show ?thesis unfolding l using a parse_parts_ValueError [of parts] c by (intro conjI)
qed

text \<open>
  Witness for C4: a line of six tokens whose first token is \<open>1.5\<close>, accepted with
  class id 1, and a line of six tokens whose last token is not a number, rejected with
  ValueError.
\<close>

theorem parse_label_line_result_iff_witness:
  "py_split (py_strip ''1.5 0 0 0 0 0.75'') = [''1.5'', ''0'', ''0'', ''0'', ''0'', ''0.75''] \<and>
   parse_label_line ''1.5 0 0 0 0 0.75'' =
     Inr (1, Finite 0, Finite 0, Finite 0, Finite 0, Some (Finite (3 / 4))) \<and>
   py_float ''0.75'' \<noteq> None \<and>
   (\<exists>q. py_float ''1.5'' = Some (Finite q) \<and> (1::int) = trunc_toward_zero q) \<and>
   parse_label_line ''1.5 0 0 0 0 x'' = Inl ValueError"
proof -
  have s: "py_split (py_strip ''1.5 0 0 0 0 0.75'') =
      [''1.5'', ''0'', ''0'', ''0'', ''0'', ''0.75'']"
    by (simp add: label_line_eval)
  have e: "parse_label_line ''1.5 0 0 0 0 0.75'' =
      Inr (1, Finite 0, Finite 0, Finite 0, Finite 0, Some (Finite (3 / 4)))"
    by (simp add: label_line_eval)
  have v: "parse_label_line ''1.5 0 0 0 0 x'' = Inl ValueError"
    by (simp add: label_line_eval)
  from parse_label_line_result_iff [OF s [symmetric]] e s v show ?thesis by simp
qed

text \<open>
  C10 (as stated, refuted). \<open>float\<close> accepts each of the first six tokens of the line
  \<open>nan 0.5 0.5 0.25 0.5 0.75 junk\<close>, yet parsing fails, because the first token is not a
  finite number; the same holds with \<open>inf\<close> in its place.
\<close>

theorem parse_label_line_extra_tokens_counterexample:
  "parse_label_line ''nan 0.5 0.5 0.25 0.5 0.75 junk'' = Inl ValueError \<and>
   parse_label_line ''inf 0.5 0.5 0.25 0.5 0.75 junk'' = Inl OverflowError \<and>
   py_float ''nan'' = Some NaN \<and> py_float ''inf'' = Some PosInf \<and>
   py_float ''0.5'' = Some (Finite (1 / 2)) \<and> py_float ''0.25'' = Some (Finite (1 / 4)) \<and>
   py_float ''0.75'' = Some (Finite (3 / 4))"
  by (simp add: label_line_eval)

text \<open>
  C10 (amended). A line with six or more tokens whose first six tokens are accepted by
  \<open>float\<close> and whose first token denotes a finite number is parsed successfully; the
  result is built from the first six tokens only, so it is the result for those six
  tokens alone and every token past the sixth is ignored.
\<close>

theorem parse_label_line_ignores_extra_tokens:
  assumes "parts = py_split (py_strip line)" and "6 \<le> length parts"
    and "py_float (parts ! 0) = Some (Finite q)"
    and "py_float (parts ! 1) = Some cx" and "py_float (parts ! 2) = Some cy"
    and "py_float (parts ! 3) = Some w" and "py_float (parts ! 4) = Some h"
    and "py_float (parts ! 5) = Some conf"
  shows "parse_label_line line = Inr (trunc_toward_zero q, cx, cy, w, h, Some conf) \<and>
         parse_parts (take 6 parts) = parse_label_line line"
proof -
  have l: "parse_label_line line = parse_parts parts"
    by (simp add: parse_label_line_def assms(1))
  have a: "parse_parts parts = Inr (trunc_toward_zero q, cx, cy, w, h, Some conf)"
    unfolding parse_parts_Inr using assms(2-) by simp
  have b: "parse_parts (take 6 parts) = Inr (trunc_toward_zero q, cx, cy, w, h, Some conf)"
    unfolding parse_parts_Inr using assms(2-) by simp
  show ?thesis unfolding l using a b by simp
qed

theorem parse_label_line_ignores_extra_tokens_witness:
  "py_split (py_strip ''7 0.5 0.5 0.2 0.4 0.9 junk 3'') =
     [''7'', ''0.5'', ''0.5'', ''0.2'', ''0.4'', ''0.9'', ''junk'', ''3''] \<and>
   parse_label_line ''7 0.5 0.5 0.2 0.4 0.9 junk 3'' =
     Inr (7, Finite (1 / 2), Finite (1 / 2),
          Finite (3602879701896397 / 18014398509481984),
          Finite (3602879701896397 / 9007199254740992),
          Some (Finite (8106479329266893 / 9007199254740992))) \<and>
   parse_parts [''7'', ''0.5'', ''0.5'', ''0.2'', ''0.4'', ''0.9''] =
     parse_label_line ''7 0.5 0.5 0.2 0.4 0.9 junk 3''"
proof -
  define parts where
    "parts = [''7'', ''0.5'', ''0.5'', ''0.2'', ''0.4'', ''0.9'', ''junk'', ''3'']"
  have s: "parts = py_split (py_strip ''7 0.5 0.5 0.2 0.4 0.9 junk 3'')"
    by (simp add: parts_def label_line_eval)
  have n: "6 \<le> length parts" by (simp add: parts_def)
  have f: "py_float (parts ! 0) = Some (Finite 7)"
    "py_float (parts ! 1) = Some (Finite (1 / 2))"
    "py_float (parts ! 2) = Some (Finite (1 / 2))"
    "py_float (parts ! 3) = Some (Finite (3602879701896397 / 18014398509481984))"
    "py_float (parts ! 4) = Some (Finite (3602879701896397 / 9007199254740992))"
    "py_float (parts ! 5) = Some (Finite (8106479329266893 / 9007199254740992))"
    by (simp_all add: parts_def label_line_eval)
  have t: "trunc_toward_zero 7 = 7" by (simp add: trunc_toward_zero_def)
  from parse_label_line_ignores_extra_tokens [OF s n f] s t show ?thesis
    by (simp add: parts_def)
qed

section \<open>Properties of the refinement\<close>

lemma not_float_lt:
  "\<not> float_lt c t \<longleftrightarrow> float_le t c \<or> c = NaN \<or> t = NaN"
  by (cases c; cases t) auto

text \<open>
  C7 (as stated, refuted). A detection whose confidence is NaN passes at the threshold
  0.5 with empty filter sets, because \<open>NaN < 0.5\<close> is false; but \<open>NaN >= 0.5\<close> is false
  too, so its confidence is not at least the threshold.
\<close>

theorem detection_passes_nan_counterexample:
  "detection_passes
     \<lparr> class_id = Some 2, class_name = Some ''dog'', confidence = Some NaN,
       bbox = (0, 0, 1, 1), bbox_norm = (Finite 0, Finite 0, Finite 0, Finite 0) \<rparr>
     (Finite (1 / 2)) {} {} \<and>
   \<not> float_le (Finite (1 / 2)) NaN"
  by (simp add: detection_passes_def)

text \<open>
  C7 (amended). A detection passes the predicate if and only if its confidence (0.0 when
  absent) is not below \<open>min_conf\<close> - that is, it is at least \<open>min_conf\<close>, or it or
  \<open>min_conf\<close> is NaN - and either both sets are empty, or its class id is in the id set,
  or its lower-cased class name is in the name set. The two memberships are joined by
  "or": one of them suffices.
\<close>

theorem detection_passes_iff:
  "detection_passes det min_conf allowed_ids allowed_names \<longleftrightarrow>
     (case confidence det of
        None \<Rightarrow> float_le min_conf (Finite 0) \<or> min_conf = NaN
      | Some c \<Rightarrow> float_le min_conf c \<or> c = NaN \<or> min_conf = NaN) \<and>
     (allowed_ids = {} \<and> allowed_names = {} \<or>
      (\<exists>i. class_id det = Some i \<and> i \<in> allowed_ids) \<or>
      (\<exists>n. class_name det = Some n \<and> py_lower n \<in> allowed_names))"
proof -
  have "detection_passes det min_conf allowed_ids allowed_names \<longleftrightarrow>
      \<not> float_lt (case confidence det of None \<Rightarrow> Finite 0 | Some c \<Rightarrow> c) min_conf \<and>
      (allowed_ids = {} \<and> allowed_names = {} \<or>
       (\<exists>i. class_id det = Some i \<and> i \<in> allowed_ids) \<or>
       (\<exists>n. class_name det = Some n \<and> py_lower n \<in> allowed_names))"
    by (auto simp: detection_passes_def Let_def split: option.splits)
  then show ?thesis by (cases "confidence det") (simp_all add: not_float_lt)
qed

text \<open>
  Witness for C7: with the filter \<open>2,dog\<close> and threshold 0.5, a detection of class 2
  named \<open>cat\<close> passes by its id alone, a detection of class 5 named \<open>Dog\<close> passes by
  its name alone, and a detection of class 2 at confidence 0.25 does not pass. A
  detection of class 2 without a confidence passes at the threshold 0.0 and not at 0.5.
\<close>

theorem detection_passes_iff_witness:
  "detection_passes
     \<lparr> class_id = Some 2, class_name = Some ''cat'', confidence = Some (Finite (3 / 4)),
       bbox = (0, 0, 1, 1), bbox_norm = (Finite 0, Finite 0, Finite 0, Finite 0) \<rparr>
     (Finite (1 / 2)) {2} {''dog''} \<and>
   detection_passes
     \<lparr> class_id = Some 5, class_name = Some ''Dog'', confidence = Some (Finite (3 / 4)),
       bbox = (0, 0, 1, 1), bbox_norm = (Finite 0, Finite 0, Finite 0, Finite 0) \<rparr>
     (Finite (1 / 2)) {2} {''dog''} \<and>
   \<not> detection_passes
     \<lparr> class_id = Some 2, class_name = None, confidence = Some (Finite (1 / 4)),
       bbox = (0, 0, 1, 1), bbox_norm = (Finite 0, Finite 0, Finite 0, Finite 0) \<rparr>
     (Finite (1 / 2)) {2} {''dog''} \<and>
   detection_passes
     \<lparr> class_id = Some 2, class_name = None, confidence = None,
       bbox = (0, 0, 1, 1), bbox_norm = (Finite 0, Finite 0, Finite 0, Finite 0) \<rparr>
     (Finite 0) {2} {''dog''} \<and>
   \<not> detection_passes
     \<lparr> class_id = Some 2, class_name = None, confidence = None,
       bbox = (0, 0, 1, 1), bbox_norm = (Finite 0, Finite 0, Finite 0, Finite 0) \<rparr>
     (Finite (1 / 2)) {2} {''dog''}"
  unfolding detection_passes_iff
  by (simp add: py_lower_def py_lower_char_def char_of_def bit_0)

lemma set_sort_descending: "set (sort_descending key xs) = set xs"
  by (simp add: sort_descending_def)

lemma refine_record_detections:
  assumes "refine_record record t ids names drop_empty sort_desc = Some r"
  shows "set (detections r) = {d \<in> set (detections record). detection_passes d t ids names}"
  using assms by (auto simp: refine_record_def Let_def set_sort_descending split: if_splits)

lemma refine_records_member:
  assumes "r \<in> set (refine_records records t ids names drop_empty sort_desc)"
  shows "\<exists>record \<in> set records.
           refine_record record t ids names drop_empty sort_desc = Some r"
  using assms by (induction records) (auto split: option.splits)

text \<open>
  C6 (as stated, refuted). The only detection of \<open>nan_records\<close> has the confidence NaN.
  It survives the refinement at the threshold 0.5, yet \<open>NaN >= 0.5\<close> is false.
\<close>

theorem refine_records_nan_counterexample:
  "map (map confidence \<circ> detections)
     (refine_records nan_records (Finite (1 / 2)) {} {} False False) = [[Some NaN]] \<and>
   \<not> float_le (Finite (1 / 2)) NaN"
  by (simp add: nan_records_def refine_record_def detection_passes_def Let_def)

text \<open>
  C6 (amended). For every threshold \<open>t\<close> and every input sequence of records, no detection
  of a record that the refinement returns has a confidence, read as 0.0 when absent,
  below \<open>t\<close>: the confidence is at least \<open>t\<close>, or it or \<open>t\<close> is NaN (a detection whose
  confidence is NaN survives every threshold).
\<close>

theorem refine_records_min_conf:
  "\<forall>r \<in> set (refine_records records t allowed_ids allowed_names drop_empty sort_desc).
     \<forall>d \<in> set (detections r).
       (case confidence d of
          None \<Rightarrow> float_le t (Finite 0) \<or> t = NaN
        | Some c \<Rightarrow> float_le t c \<or> c = NaN \<or> t = NaN)"
proof (intro ballI)
  fix r d
  assume r: "r \<in> set (refine_records records t allowed_ids allowed_names drop_empty sort_desc)"
    and d: "d \<in> set (detections r)"
  from refine_records_member [OF r] obtain src where
    "refine_record src t allowed_ids allowed_names drop_empty sort_desc = Some r"
    by blast
  from refine_record_detections [OF this] d
  have "detection_passes d t allowed_ids allowed_names" by simp
  then have "\<not> float_lt (case confidence d of None \<Rightarrow> Finite 0 | Some c \<Rightarrow> c) t"
    by (simp add: detection_passes_def Let_def split: if_splits)
  then show "case confidence d of
      None \<Rightarrow> float_le t (Finite 0) \<or> t = NaN
    | Some c \<Rightarrow> float_le t c \<or> c = NaN \<or> t = NaN"
    by (cases "confidence d") (simp_all add: not_float_lt)
qed

text \<open>
  Witness for C6: at the threshold 0.0 the refinement of \<open>mixed_records\<close>, sorted, keeps
  every detection, the one without a confidence included (read as 0.0, it comes last in
  its image); at the threshold 0.5 it keeps only the detection at 0.75.
\<close>

theorem refine_records_min_conf_witness:
  "map (map confidence \<circ> detections) (refine_records mixed_records (Finite 0) {} {} False True) =
     [[Some (Finite (3 / 4)), Some (Finite (1 / 4)), None], [Some (Finite (1 / 8))]] \<and>
   map (map confidence \<circ> detections)
     (refine_records mixed_records (Finite (1 / 2)) {} {} False True) =
     [[Some (Finite (3 / 4))], []] \<and>
   float_le (Finite 0) (Finite (3 / 4)) \<and> float_le (Finite 0) (Finite 0) \<and>
   float_le (Finite (1 / 2)) (Finite (3 / 4))"
proof -
  have e: "map (map confidence \<circ> detections)
      (refine_records mixed_records (Finite 0) {} {} False True) =
      [[Some (Finite (3 / 4)), Some (Finite (1 / 4)), None], [Some (Finite (1 / 8))]]"
    by (simp add: mixed_records_def refine_record_def detection_passes_def
        sort_descending_def descending_rank_def confidence_or_zero_def Let_def)
  have e': "map (map confidence \<circ> detections)
      (refine_records mixed_records (Finite (1 / 2)) {} {} False True) =
      [[Some (Finite (3 / 4))], []]"
    by (simp add: mixed_records_def refine_record_def detection_passes_def
        sort_descending_def descending_rank_def confidence_or_zero_def Let_def)
  from refine_records_min_conf [of mixed_records "Finite 0" "{}" "{}" False True] e e'
  show ?thesis by simp
qed

section \<open>Properties of the summary\<close>

lemma sum_list_insort_key:
  fixes g :: "'a \<Rightarrow> nat"
  shows "sum_list (map g (insort_key f x xs)) = g x + sum_list (map g xs)"
  by (induction xs) auto

lemma sum_list_sort_key:
  fixes g :: "'a \<Rightarrow> nat"
  shows "sum_list (map g (sort_key f xs)) = sum_list (map g xs)"
  by (induction xs) (simp_all add: sum_list_insort_key)

lemma length_filter_disjoint:
  assumes "\<And>x. \<not> (P x \<and> Q x)"
  shows "length (filter (\<lambda>x. P x \<or> Q x) xs) = length (filter P xs) + length (filter Q xs)"
  using assms by (induction xs) auto

lemma group_sizes_sum:
  assumes "distinct ks"
  shows "sum_list (map (\<lambda>k. length (filter (\<lambda>r. f r = k) rows)) ks) =
         length (filter (\<lambda>r. f r \<in> set ks) rows)"
  using assms
proof (induction ks)
  case Nil
  then show ?case by simp
next
  case (Cons k ks)
  have "length (filter (\<lambda>r. f r = k \<or> f r \<in> set ks) rows) =
        length (filter (\<lambda>r. f r = k) rows) + length (filter (\<lambda>r. f r \<in> set ks) rows)"
    using Cons.prems by (intro length_filter_disjoint) auto
  then show ?case using Cons by simp
qed

lemma distinct_group_keys: "distinct (group_keys lib df)"
  by (simp add: group_keys_def)

lemma set_group_keys: "set (group_keys lib df) = row_key lib df ` set df"
  by (simp add: group_keys_def)

lemma num_detections_aggregate:
  "num_detections (aggregate lib df k) = length (filter (\<lambda>row. row_key lib df row = k) df)"
  by (simp add: aggregate_def Let_def)

lemma summary_key_aggregate: "summary_key (aggregate lib df k) = k"
  by (simp add: aggregate_def summary_key_def Let_def)

lemma groupby_agg_total: "sum_list (map num_detections (groupby_agg lib df)) = length df"
proof -
  have "sum_list (map num_detections (groupby_agg lib df)) =
        sum_list (map (\<lambda>k. length (filter (\<lambda>row. row_key lib df row = k) df))
          (group_keys lib df))"
    by (simp add: groupby_agg_def num_detections_aggregate comp_def)
  also have "\<dots> = length (filter (\<lambda>row. row_key lib df row \<in> set (group_keys lib df)) df)"
    by (rule group_sizes_sum) (rule distinct_group_keys)
  also have "\<dots> = length df" by (simp add: set_group_keys)
  finally show ?thesis .
qed

lemma length_build_dataframe:
  "length (build_dataframe records) = sum_list (map (\<lambda>r. length (detections r)) records)"
  by (simp add: build_dataframe_def length_concat comp_def)

text \<open>
  C8. For every input sequence of records and every sort column, the sum of
  \<open>num_detections\<close> over the rows of the summary equals the total number of detections
  of the input records, whatever the library does with missing values and however it
  computes the statistics.
\<close>

theorem summarise_total_detections:
  "sum_list (map num_detections (summarise lib (build_dataframe records) sort_by)) =
   sum_list (map (\<lambda>r. length (detections r)) records)"
proof (cases "build_dataframe records = []")
  case True
  have "sum_list (map (\<lambda>r. length (detections r)) records) = 0"
    using length_build_dataframe [of records] True by simp
  then show ?thesis using True by (simp add: summarise_def)
next
  case False
  then show ?thesis
    by (simp add: summarise_def sort_values_desc_def sort_descending_def sum_list_sort_key
        groupby_agg_total length_build_dataframe)
qed

text \<open>
  Witness for C8: \<open>mixed_records\<close> holds four detections, summarised as two rows of two.
\<close>

theorem summarise_total_detections_witness:
  "map num_detections
     (summarise reference_pandas (build_dataframe mixed_records) By_max_confidence) = [2, 2] \<and>
   map (\<lambda>r. length (detections r)) mixed_records = [3, 1] \<and>
   sum_list [2, 2 :: nat] = sum_list [3, 1]"
proof -
  have e: "map num_detections
      (summarise reference_pandas (build_dataframe mixed_records) By_max_confidence) = [2, 2]"
    by (simp add: summary_eval mixed_records_def)
  have d: "map (\<lambda>r. length (detections r)) mixed_records = [3, 1]"
    by (simp add: mixed_records_def)
  from summarise_total_detections [of reference_pandas mixed_records By_max_confidence] e d
  show ?thesis by simp
qed

lemma descending_rank_le:
  "descending_rank a \<le> descending_rank b \<Longrightarrow> \<not> float_lt a b"
  by (cases a; cases b) (auto simp: descending_rank_def)

lemma sort_descending_sorted:
  "sorted_wrt (\<lambda>a b. \<not> float_lt (key a) (key b)) (sort_descending key xs)"
proof -
  have "sorted (map (\<lambda>x. descending_rank (key x)) (sort_descending key xs))"
    unfolding sort_descending_def by (rule sorted_sort_key)
  then have "sorted_wrt (\<lambda>a b. descending_rank (key a) \<le> descending_rank (key b))
      (sort_descending key xs)"
    by (simp add: sorted_wrt_map)
  then show ?thesis
    by (rule sorted_wrt_mono_rel [rotated]) (simp add: descending_rank_le)
qed

lemma groupby_agg_keys: "map summary_key (groupby_agg lib df) = group_keys lib df"
  by (simp add: groupby_agg_def comp_def summary_key_aggregate)

text \<open>
  C2 (as stated, refuted). In \<open>tied_records\<close> the dog is met before the cat, and the two
  groups are tied in every column; the summary lists the cat first. Moreover the input
  with the two detections exchanged, which meets the cat first, is grouped into the very
  same table, so the sorted summary cannot follow the order of first encounter for both
  inputs, however the sort treats ties.
\<close>

theorem summarise_tie_order_counterexample:
  "map summary_key
     (summarise reference_pandas (build_dataframe tied_records) By_mean_confidence) =
     [(Str_cell ''cat'', Int_cell 0), (Str_cell ''dog'', Int_cell 1)] \<and>
   map (column By_mean_confidence)
     (summarise reference_pandas (build_dataframe tied_records) By_mean_confidence) =
     [Finite (1 / 2), Finite (1 / 2)] \<and>
   first_encountered (map (row_key reference_pandas (build_dataframe tied_records))
       (build_dataframe tied_records)) =
     [(Str_cell ''dog'', Int_cell 1), (Str_cell ''cat'', Int_cell 0)] \<and>
   groupby_agg reference_pandas (build_dataframe
       (map (\<lambda>r. r\<lparr>detections := rev (detections r)\<rparr>) tied_records)) =
     groupby_agg reference_pandas (build_dataframe tied_records)"
  by (simp add: summary_eval tied_records_def)

text \<open>
  C2 (amended). The summary has one row per \<open>(class_display, class_id)\<close> group, holding
  that group's statistics, and the rows are sorted by the requested column in descending
  order: no row comes before a row with a larger value in that column. Rows tied in
  that column are in no promised order; it is not the order in which the groups were
  first met, because the grouping hands the groups to the sort in ascending order of
  their key.
\<close>

theorem summarise_order:
  assumes "out = summarise lib df sort_by"
  shows "distinct (map summary_key out) \<and>
         set out = aggregate lib df ` row_key lib df ` set df \<and>
         sorted_wrt (\<lambda>a b. \<not> float_lt (column sort_by a) (column sort_by b)) out"
proof (cases "df = []")
  case True
  then show ?thesis using assms by (simp add: summarise_def)
next
  case False
  then have out: "out = sort_descending (column sort_by) (groupby_agg lib df)"
    using assms by (simp add: summarise_def sort_values_desc_def)
  have k: "distinct (map summary_key (groupby_agg lib df))"
    by (simp add: groupby_agg_keys distinct_group_keys)
  have "distinct (map summary_key out)"
    unfolding out sort_descending_def using k by (simp add: distinct_map)
  moreover have "set out = aggregate lib df ` row_key lib df ` set df"
    unfolding out sort_descending_def by (simp add: groupby_agg_def set_group_keys)
  moreover have "sorted_wrt (\<lambda>a b. \<not> float_lt (column sort_by a) (column sort_by b)) out"
    unfolding out by (rule sort_descending_sorted)
  ultimately show ?thesis by simp
qed

text \<open>
  Witness for C2: the summary of \<open>mixed_records\<close> by mean confidence. The grouping emits
  the cats before the dogs; the sort puts the dogs (mean 0.5) before the cats (mean
  0.0625).
\<close>

theorem summarise_order_witness:
  "summarise reference_pandas (build_dataframe mixed_records) By_mean_confidence =
     [\<lparr> class_display = Str_cell ''dog'', summary_class_id = Int_cell 2, num_detections = 2,
        mean_confidence = Finite (1 / 2), max_confidence = Finite (3 / 4) \<rparr>,
      \<lparr> class_display = Str_cell ''cat'', summary_class_id = Int_cell 5, num_detections = 2,
        mean_confidence = Finite (1 / 16), max_confidence = Finite (1 / 8) \<rparr>] \<and>
   map summary_key (groupby_agg reference_pandas (build_dataframe mixed_records)) =
     [(Str_cell ''cat'', Int_cell 5), (Str_cell ''dog'', Int_cell 2)] \<and>
   \<not> float_lt (Finite (1 / 2)) (Finite (1 / 16))"
proof -
  have e: "summarise reference_pandas (build_dataframe mixed_records) By_mean_confidence =
      [\<lparr> class_display = Str_cell ''dog'', summary_class_id = Int_cell 2, num_detections = 2,
         mean_confidence = Finite (1 / 2), max_confidence = Finite (3 / 4) \<rparr>,
       \<lparr> class_display = Str_cell ''cat'', summary_class_id = Int_cell 5, num_detections = 2,
         mean_confidence = Finite (1 / 16), max_confidence = Finite (1 / 8) \<rparr>]"
    by (simp add: summary_eval mixed_records_def)
  have g: "map summary_key (groupby_agg reference_pandas (build_dataframe mixed_records)) =
      [(Str_cell ''cat'', Int_cell 5), (Str_cell ''dog'', Int_cell 2)]"
    by (simp add: summary_eval mixed_records_def)
  from summarise_order [OF refl, of reference_pandas "build_dataframe mixed_records"
      By_mean_confidence] g
  show ?thesis unfolding e by (simp add: column_def)
qed

section \<open>Properties of the image resolution\<close>

lemma candidates_None:
  assumes "set ds = {runs_dir, base_dir}"
  shows "find (\<lambda>candidate. candidate \<in> set fs)
       (concat (map (\<lambda>directory. map (\<lambda>ext. directory @ [stem @ ext]) IMAGE_EXTENSIONS) ds)) = None \<longleftrightarrow>
      (\<forall>directory \<in> {runs_dir, base_dir}.
         \<forall>ext \<in> set IMAGE_EXTENSIONS. directory @ [stem @ ext] \<notin> set fs)"
  by (simp add: find_None_iff assms) blast

lemma set_set_iteration: "set (set_iteration base_first runs_dir base_dir) = {runs_dir, base_dir}"
  by (auto simp: set_iteration_def)

text \<open>
  Whatever the iteration order of the set, the resolver raises exactly when no candidate
  exists: neither directory holds the stem with one of the extensions, and no file of
  such a name lies below the root.
\<close>

lemma find_image_for_label_not_found:
  "find_image_for_label base_first fs runs_dir label_path = Inl FileNotFoundError \<longleftrightarrow>
     (\<forall>directory \<in> {runs_dir,
          if path_name (path_parent label_path) = ''labels''
          then path_parent (path_parent label_path) else runs_dir}.
        \<forall>ext \<in> set IMAGE_EXTENSIONS. directory @ [path_stem label_path @ ext] \<notin> set fs) \<and>
     (\<forall>ext \<in> set IMAGE_EXTENSIONS. rglob fs runs_dir (path_stem label_path @ ext) = [])"
proof -
  let ?stem = "path_stem label_path"
  let ?base = "if path_name (path_parent label_path) = ''labels''
     then path_parent (path_parent label_path) else runs_dir"
  let ?cands = "concat (map (\<lambda>directory. map (\<lambda>ext. directory @ [?stem @ ext]) IMAGE_EXTENSIONS)
              (set_iteration base_first runs_dir ?base))"
  let ?exts = "find (\<lambda>ext. rglob fs runs_dir (?stem @ ext) \<noteq> []) IMAGE_EXTENSIONS"
  have B: "?exts = None \<longleftrightarrow>
      (\<forall>ext \<in> set IMAGE_EXTENSIONS. rglob fs runs_dir (?stem @ ext) = [])"
    unfolding find_None_iff by blast
  have C: "find_image_for_label base_first fs runs_dir label_path =
      (case find (\<lambda>candidate. candidate \<in> set fs) ?cands of
         Some candidate \<Rightarrow> Inr candidate
       | None \<Rightarrow> (case ?exts of
            Some ext \<Rightarrow> Inr (hd (rglob fs runs_dir (?stem @ ext)))
          | None \<Rightarrow> Inl FileNotFoundError))"
    unfolding find_image_for_label_def Let_def ..
  have "find_image_for_label base_first fs runs_dir label_path = Inl FileNotFoundError \<longleftrightarrow>
      find (\<lambda>candidate. candidate \<in> set fs) ?cands = None \<and> ?exts = None"
    unfolding C by (cases "find (\<lambda>candidate. candidate \<in> set fs) ?cands"; cases ?exts) simp_all
  then show ?thesis
    unfolding B candidates_None [OF set_set_iteration] .
qed

text \<open>
  C5 (the order of the first two candidates is not fixed). For the label file
  \<open>runs/exp/labels/a.txt\<close> the root \<open>runs\<close> and the grandparent \<open>runs/exp\<close> both hold
  \<open>a.jpg\<close>. When the set is iterated with \<open>runs\<close> first the result is \<open>runs/a.jpg\<close>, as
  the claim says; when it is iterated with \<open>runs/exp\<close> first the result is
  \<open>runs/exp/a.jpg\<close>, although the candidate directly under the root exists.
\<close>

theorem find_image_for_label_set_order:
  "find_image_for_label False nested_run [''runs''] [''runs'', ''exp'', ''labels'', ''a.txt''] =
     Inr [''runs'', ''a.jpg''] \<and>
   find_image_for_label True nested_run [''runs''] [''runs'', ''exp'', ''labels'', ''a.txt''] =
     Inr [''runs'', ''exp'', ''a.jpg''] \<and>
   [''runs'', ''a.jpg''] \<in> set nested_run"
  by (simp add: resolver_eval)

end
